theory Spec2Isabelle
  imports Complex_Main "HOL-Library.Log_Nat" "HOL-Library.Word"
begin

section \<open>Numbers and dates\<close>

text \<open>
  The indicator columns of the data frame hold floating-point numbers. In the rows read
  by the level finder and the signal composer, which compare these numbers, sort them
  and take relative distances, a finite value is the rational number it denotes and the
  marker NaN of pandas is \<open>None\<close>; the raw columns of such a row (high, low, close,
  volume) are finite numbers. The stop-loss helper and the VWAP block compute on binary
  floating-point numbers, modelled further below.

  An ordering comparison with NaN is false, whichever side NaN is on.
\<close>

type_synonym fval = "rat option"

definition fgt :: "fval \<Rightarrow> fval \<Rightarrow> bool" where
  "fgt a b = (case (a, b) of (Some x, Some y) \<Rightarrow> x > y | _ \<Rightarrow> False)"

definition flt :: "fval \<Rightarrow> fval \<Rightarrow> bool" where
  "flt a b = (case (a, b) of (Some x, Some y) \<Rightarrow> x < y | _ \<Rightarrow> False)"

definition fge :: "fval \<Rightarrow> fval \<Rightarrow> bool" where
  "fge a b = (case (a, b) of (Some x, Some y) \<Rightarrow> x \<ge> y | _ \<Rightarrow> False)"

definition fle :: "fval \<Rightarrow> fval \<Rightarrow> bool" where
  "fle a b = (case (a, b) of (Some x, Some y) \<Rightarrow> x \<le> y | _ \<Rightarrow> False)"

text \<open>A time stamp as Python's \<open>datetime\<close> holds it.\<close>

record datetime =
  year :: nat
  month :: nat
  day :: nat
  hour :: nat
  minute :: nat
  second :: nat
  microsecond :: nat

section \<open>Indicator snapshots\<close>

text \<open>
  One row of the data frame returned by \<open>calculate_technical_indicators\<close>, with the
  columns that the level finder and the signal composer read. The frame is a list of
  rows in index order. Every column is present in every row, so a lookup by column name
  never fails and \<open>latest.get(name, 0)\<close> never falls back to its default.
\<close>

record snapshot =
  date :: datetime
  high :: rat
  low :: rat
  close :: rat
  volume :: nat
  MA5 :: fval
  MA10 :: fval
  MA20 :: fval
  MA60 :: fval
  BB_upper :: fval
  BB_lower :: fval
  MACD :: fval
  MACD_signal :: fval
  RSI :: fval
  KD_K :: fval
  KD_D :: fval
  Williams_R :: fval
  ATR :: fval
  OBV :: fval
  ADX :: fval
  DI_plus :: fval
  DI_minus :: fval
  CCI :: fval
  VWAP :: fval
  SAR :: fval
  Volume_Ratio :: fval
  ROC_5 :: fval

section \<open>The signal composer: \<open>get_daytrading_signals\<close>\<close>

text \<open>
  The messages appended to \<open>signals['signals']\<close>, one constructor per message of the
  source, in the order of the rules.
\<close>

datatype signal_msg =
    MACD_golden_cross
  | MACD_death_cross
  | KD_low_golden_cross
  | KD_golden_cross
  | KD_high_death_cross
  | KD_death_cross
  | RSI_oversold
  | RSI_overbought
  | Williams_overbought
  | Williams_oversold
  | ADX_strong_uptrend
  | ADX_strong_downtrend
  | CCI_overbought
  | CCI_oversold
  | OBV_top_divergence
  | OBV_bottom_divergence
  | BB_break_upper
  | BB_break_lower
  | Volume_surge
  | ROC_strong
  | ROC_weak

datatype recommendation = STRONG_BUY | BUY | HOLD | SELL | STRONG_SELL

record signal_report =
  timestamp :: datetime
  report_price :: rat
  signals :: "signal_msg list"
  strength :: int
  recommendation :: recommendation

text \<open>
  The running state of the function body is the pair of the message list and
  \<open>strength_score\<close>. Each numbered block of the source is one state transformer.
\<close>

type_synonym score_state = "signal_msg list \<times> int"

definition fire :: "signal_msg \<Rightarrow> int \<Rightarrow> score_state \<Rightarrow> score_state" where
  "fire m d st = (fst st @ [m], snd st + d)"

definition rule_macd :: "snapshot \<Rightarrow> snapshot \<Rightarrow> score_state \<Rightarrow> score_state" where
  "rule_macd latest prev st =
     (if fgt (MACD latest) (MACD_signal latest) \<and> fle (MACD prev) (MACD_signal prev)
      then fire MACD_golden_cross 15 st
      else if flt (MACD latest) (MACD_signal latest) \<and> fge (MACD prev) (MACD_signal prev)
      then fire MACD_death_cross (- 15) st
      else st)"

definition rule_kd :: "snapshot \<Rightarrow> snapshot \<Rightarrow> score_state \<Rightarrow> score_state" where
  "rule_kd latest prev st =
     (if fgt (KD_K latest) (KD_D latest) \<and> fle (KD_K prev) (KD_D prev)
      then (if flt (KD_K latest) (Some 30)
            then fire KD_low_golden_cross 20 st
            else fire KD_golden_cross 10 st)
      else if flt (KD_K latest) (KD_D latest) \<and> fge (KD_K prev) (KD_D prev)
      then (if fgt (KD_K latest) (Some 70)
            then fire KD_high_death_cross (- 20) st
            else fire KD_death_cross (- 10) st)
      else st)"

definition rule_rsi :: "snapshot \<Rightarrow> score_state \<Rightarrow> score_state" where
  "rule_rsi latest st =
     (if flt (RSI latest) (Some 30) then fire RSI_oversold 15 st
      else if fgt (RSI latest) (Some 70) then fire RSI_overbought (- 15) st
      else st)"

definition rule_williams :: "snapshot \<Rightarrow> score_state \<Rightarrow> score_state" where
  "rule_williams latest st =
     (if fgt (Williams_R latest) (Some (- 20)) then fire Williams_overbought (- 10) st
      else if flt (Williams_R latest) (Some (- 80)) then fire Williams_oversold 10 st
      else st)"

definition rule_adx :: "snapshot \<Rightarrow> score_state \<Rightarrow> score_state" where
  "rule_adx latest st =
     (if fgt (ADX latest) (Some 25)
      then (if fgt (DI_plus latest) (DI_minus latest)
            then fire ADX_strong_uptrend 10 st
            else fire ADX_strong_downtrend (- 10) st)
      else st)"

definition rule_cci :: "snapshot \<Rightarrow> score_state \<Rightarrow> score_state" where
  "rule_cci latest st =
     (if fgt (CCI latest) (Some 100) then fire CCI_overbought (- 10) st
      else if flt (CCI latest) (Some (- 100)) then fire CCI_oversold 10 st
      else st)"

text \<open>Block 7 reads \<open>df.iloc[-5]\<close>, guarded by \<open>len(df) >= 5\<close>.\<close>

definition rule_obv :: "snapshot list \<Rightarrow> snapshot \<Rightarrow> score_state \<Rightarrow> score_state" where
  "rule_obv df latest st =
     (if length df \<ge> 5
      then (let price_trend = (close latest > close (df ! (length df - 5)));
                obv_trend = fgt (OBV latest) (OBV (df ! (length df - 5)))
            in if price_trend \<and> \<not> obv_trend then fire OBV_top_divergence (- 15) st
               else if \<not> price_trend \<and> obv_trend then fire OBV_bottom_divergence 15 st
               else st)
      else st)"

definition rule_bb :: "snapshot \<Rightarrow> score_state \<Rightarrow> score_state" where
  "rule_bb latest st =
     (if fgt (Some (close latest)) (BB_upper latest) then fire BB_break_upper 5 st
      else if flt (Some (close latest)) (BB_lower latest) then fire BB_break_lower (- 5) st
      else st)"

definition rule_volume :: "snapshot \<Rightarrow> score_state \<Rightarrow> score_state" where
  "rule_volume latest st =
     (if fgt (Volume_Ratio latest) (Some 150) then fire Volume_surge 5 st else st)"

definition rule_roc :: "snapshot \<Rightarrow> score_state \<Rightarrow> score_state" where
  "rule_roc latest st =
     (if fgt (ROC_5 latest) (Some 5) then fire ROC_strong 10 st
      else if flt (ROC_5 latest) (Some (- 5)) then fire ROC_weak (- 10) st
      else st)"

definition score_rules :: "snapshot list \<Rightarrow> snapshot \<Rightarrow> snapshot \<Rightarrow> score_state" where
  "score_rules df latest prev =
     rule_roc latest (rule_volume latest (rule_bb latest (rule_obv df latest
       (rule_cci latest (rule_adx latest (rule_williams latest (rule_rsi latest
         (rule_kd latest prev (rule_macd latest prev ([], 0))))))))))"

text \<open>The final block: the clamped strength and the recommendation of the raw score.\<close>

definition recommend :: "int \<Rightarrow> recommendation" where
  "recommend strength_score =
     (if strength_score \<ge> 30 then STRONG_BUY
      else if strength_score \<ge> 15 then BUY
      else if strength_score \<le> - 30 then STRONG_SELL
      else if strength_score \<le> - 15 then SELL
      else HOLD)"

definition compose_report :: "snapshot \<Rightarrow> score_state \<Rightarrow> signal_report" where
  "compose_report latest st =
     \<lparr> timestamp = date latest,
       report_price = close latest,
       signals = fst st,
       strength = max (min (snd st) 100) (- 100),
       recommendation = recommend (snd st) \<rparr>"

text \<open>
  \<open>None\<close> is Python's \<open>None\<close>, returned when the frame is empty or has fewer than two
  rows; \<open>df.iloc[-1]\<close> and \<open>df.iloc[-2]\<close> are then in range.
\<close>

definition get_daytrading_signals :: "snapshot list \<Rightarrow> signal_report option" where
  "get_daytrading_signals df =
     (if df = [] \<or> length df < 2 then None
      else (let latest = df ! (length df - 1);
                prev = df ! (length df - 2)
            in Some (compose_report latest (score_rules df latest prev))))"

section \<open>Binary floating point\<close>

text \<open>
  The stop-loss helper and the VWAP block are modelled on IEEE 754 binary64 numbers, the
  \<open>float\<close> of Python and the \<open>float64\<close> of numpy. A value is a finite number
  (the rational it denotes), an infinity or NaN. The two zeros are one value: they
  compare equal, and the sign of a zero matters only for a zero divisor, which is
  positive wherever the code below divides.

  \<open>round_half_even\<close> rounds a rational to the nearest integer, a tie going to the
  even neighbour.
\<close>

definition round_half_even :: "rat \<Rightarrow> int" where
  "round_half_even x =
     (let f = \<lfloor>x\<rfloor>; d = x - of_int f
      in if d < 1 / 2 then f
         else if d > 1 / 2 then f + 1
         else if even f then f else f + 1)"

text \<open>
  \<open>expo x\<close> is the binary exponent of a nonzero \<open>x\<close>: the integer \<open>e\<close> with
  \<open>2 ^ e \<le> |x| < 2 ^ (e + 1)\<close> (lemma \<open>expo_bounds\<close>). It is found from the bit
  lengths of the numerator and the denominator.
\<close>

definition expo :: "rat \<Rightarrow> int" where
  "expo x =
     (let (p, q) = quotient_of \<bar>x\<bar>;
          d = int (floorlog 2 (nat p)) - int (floorlog 2 (nat q))
      in if 2 powi d \<le> \<bar>x\<bar> then d else d - 1)"

text \<open>
  Rounding to the nearest binary64 number, ties to even, with an unbounded exponent
  range upwards: the result is a multiple of the unit in the last place, 52 binary
  digits below the exponent, or below -1022 for a subnormal number.
\<close>

definition rne :: "rat \<Rightarrow> rat" where
  "rne x =
     (if x = 0 then 0
      else (let t = max (expo x) (- 1022) - 52
            in of_int (round_half_even (x / 2 powi t)) * 2 powi t))"

datatype dbl = Fin rat | PInf | NInf | NaN

text \<open>The rounded result of an operation; a result of magnitude \<open>2 ^ 1024\<close> overflows.\<close>

definition fl :: "rat \<Rightarrow> dbl" where
  "fl x =
     (let y = rne x
      in if \<bar>y\<bar> \<ge> 2 ^ 1024 then (if x > 0 then PInf else NInf) else Fin y)"

text \<open>The arithmetic operations with their special cases.\<close>

definition fneg :: "dbl \<Rightarrow> dbl" where
  "fneg a = (case a of Fin x \<Rightarrow> Fin (- x) | PInf \<Rightarrow> NInf | NInf \<Rightarrow> PInf | NaN \<Rightarrow> NaN)"

fun fadd :: "dbl \<Rightarrow> dbl \<Rightarrow> dbl" where
  "fadd (Fin x) (Fin y) = fl (x + y)"
| "fadd NaN b = NaN"
| "fadd a NaN = NaN"
| "fadd PInf NInf = NaN"
| "fadd NInf PInf = NaN"
| "fadd PInf b = PInf"
| "fadd a PInf = PInf"
| "fadd NInf b = NInf"
| "fadd a NInf = NInf"

definition fsub :: "dbl \<Rightarrow> dbl \<Rightarrow> dbl" where
  "fsub a b = fadd a (fneg b)"

fun fmul :: "dbl \<Rightarrow> dbl \<Rightarrow> dbl" where
  "fmul (Fin x) (Fin y) = fl (x * y)"
| "fmul NaN b = NaN"
| "fmul a NaN = NaN"
| "fmul (Fin x) b = (if x = 0 then NaN else if (x > 0) = (b = PInf) then PInf else NInf)"
| "fmul a (Fin y) = (if y = 0 then NaN else if (y > 0) = (a = PInf) then PInf else NInf)"
| "fmul a b = (if a = b then PInf else NInf)"

fun fdiv :: "dbl \<Rightarrow> dbl \<Rightarrow> dbl" where
  "fdiv (Fin x) (Fin y) =
     (if y = 0 then (if x = 0 then NaN else if x > 0 then PInf else NInf) else fl (x / y))"
| "fdiv NaN b = NaN"
| "fdiv a NaN = NaN"
| "fdiv (Fin x) b = Fin 0"
| "fdiv a (Fin y) = (if (y \<ge> 0) = (a = PInf) then PInf else NInf)"
| "fdiv a b = NaN"

section \<open>The stop-loss helper: \<open>calculate_stop_loss_take_profit\<close>\<close>

text \<open>
  The arguments are Python floats; an int among them, such as the default ratio 2 and
  the literal 2 of the code, enters every operation as the float of the same value.
  \<open>round(x, 2)\<close> on a float gives the binary64 number nearest to the exact value of
  \<open>x\<close> rounded to two decimals, a tie going to the even neighbour; an infinity or NaN
  is returned as it is.
\<close>

definition py_round2 :: "dbl \<Rightarrow> dbl" where
  "py_round2 a =
     (case a of Fin x \<Rightarrow> fl (of_int (round_half_even (x * 100)) / 100) | _ \<Rightarrow> a)"

record stop_levels =
  stop_loss :: dbl
  take_profit :: dbl
  conservative_stop :: dbl
  aggressive_stop :: dbl
  risk_amount :: dbl
  reward_amount :: dbl
  risk_reward_ratio :: dbl

definition calculate_stop_loss_take_profit :: "dbl \<Rightarrow> dbl \<Rightarrow> dbl \<Rightarrow> stop_levels" where
  "calculate_stop_loss_take_profit current_price atr rrr =
     (let sl = fsub current_price (fmul atr (Fin 2));
          tp = fadd current_price (fmul (fmul atr (Fin 2)) rrr);
          cs = fsub current_price (fmul atr (Fin (3 / 2)));
          ag = fsub current_price (fmul atr (Fin (5 / 2)))
      in \<lparr> stop_loss = py_round2 sl,
           take_profit = py_round2 tp,
           conservative_stop = py_round2 cs,
           aggressive_stop = py_round2 ag,
           risk_amount = py_round2 (fsub current_price sl),
           reward_amount = py_round2 (fsub tp current_price),
           risk_reward_ratio = rrr \<rparr>)"


section \<open>The level finder: \<open>calculate_support_resistance\<close>\<close>

datatype py_error = IndexError | KeyError | IntegrityError

datatype level_strength = medium | strong

text \<open>
  The \<open>desc\<close> text of a level, one constructor per text of the source. The moving
  average levels carry the name of the average, the recent extrema the date of the bar
  (the source prints its month and day).
\<close>

datatype level_desc =
    MA_support string
  | MA_resistance string
  | BB_upper_resistance
  | BB_lower_support
  | SAR_trailing_stop
  | SAR_resistance
  | VWAP_support
  | VWAP_resistance
  | Recent_high datetime
  | Recent_low datetime
  | ATR_stop
  | ATR_target

record level =
  price :: rat
  desc :: level_desc
  level_strength :: level_strength

record levels_result =
  support :: "level list"
  resistance :: "level list"
  current_price :: rat

text \<open>
  The state of the collecting part is the pair \<open>(support_levels, resistance_levels)\<close>.
  \<open>pd.notna(v) and v > 0\<close> is \<open>fgt v (Some 0)\<close>.
\<close>

type_synonym levels_state = "level list \<times> level list"

definition add_support :: "level \<Rightarrow> levels_state \<Rightarrow> levels_state" where
  "add_support l st = (fst st @ [l], snd st)"

definition add_resistance :: "level \<Rightarrow> levels_state \<Rightarrow> levels_state" where
  "add_resistance l st = (fst st, snd st @ [l])"

definition ma_level :: "rat \<Rightarrow> string \<Rightarrow> fval \<Rightarrow> levels_state \<Rightarrow> levels_state" where
  "ma_level cur ma_name ma_value st =
     (case ma_value of
        None \<Rightarrow> st
      | Some v \<Rightarrow>
          if v > 0 then
            (if v < cur
             then add_support \<lparr> price = v, desc = MA_support ma_name, level_strength = medium \<rparr> st
             else if v > cur
             then add_resistance
                    \<lparr> price = v, desc = MA_resistance ma_name, level_strength = medium \<rparr> st
             else st)
          else st)"

definition ma_levels :: "snapshot \<Rightarrow> levels_state \<Rightarrow> levels_state" where
  "ma_levels latest st =
     ma_level (close latest) ''MA60'' (MA60 latest)
       (ma_level (close latest) ''MA20'' (MA20 latest)
         (ma_level (close latest) ''MA10'' (MA10 latest)
           (ma_level (close latest) ''MA5'' (MA5 latest) st)))"

definition bb_levels :: "snapshot \<Rightarrow> levels_state \<Rightarrow> levels_state" where
  "bb_levels latest st =
     (let st1 = (case BB_upper latest of
                   None \<Rightarrow> st
                 | Some u \<Rightarrow>
                     if u > close latest
                     then add_resistance
                            \<lparr> price = u, desc = BB_upper_resistance, level_strength = strong \<rparr> st
                     else st)
      in (case BB_lower latest of
            None \<Rightarrow> st1
          | Some l \<Rightarrow>
              if l < close latest
              then add_support
                     \<lparr> price = l, desc = BB_lower_support, level_strength = strong \<rparr> st1
              else st1))"

definition sar_level :: "snapshot \<Rightarrow> levels_state \<Rightarrow> levels_state" where
  "sar_level latest st =
     (case SAR latest of
        None \<Rightarrow> st
      | Some v \<Rightarrow>
          if v > 0 then
            (if v < close latest
             then add_support
                    \<lparr> price = v, desc = SAR_trailing_stop, level_strength = strong \<rparr> st
             else add_resistance
                    \<lparr> price = v, desc = SAR_resistance, level_strength = strong \<rparr> st)
          else st)"

definition vwap_level :: "snapshot \<Rightarrow> levels_state \<Rightarrow> levels_state" where
  "vwap_level latest st =
     (case VWAP latest of
        None \<Rightarrow> st
      | Some v \<Rightarrow>
          if v > 0 then
            (if v < close latest
             then add_support \<lparr> price = v, desc = VWAP_support, level_strength = strong \<rparr> st
             else add_resistance
                    \<lparr> price = v, desc = VWAP_resistance, level_strength = strong \<rparr> st)
          else st)"

text \<open>
  The two loops over \<open>recent_data = df.tail(20)\<close>, with \<open>i\<close> running over
  \<open>range(1, len(recent_data) - 1)\<close>.
\<close>

definition local_highs :: "snapshot list \<Rightarrow> rat \<Rightarrow> level list" where
  "local_highs recent_data cur =
     map (\<lambda>i. \<lparr> price = high (recent_data ! i), desc = Recent_high (date (recent_data ! i)),
                level_strength = medium \<rparr>)
       (filter (\<lambda>i. high (recent_data ! i) > high (recent_data ! (i - 1))
                   \<and> high (recent_data ! i) > high (recent_data ! (i + 1))
                   \<and> high (recent_data ! i) > cur)
          [1 ..< length recent_data - 1])"

definition local_lows :: "snapshot list \<Rightarrow> rat \<Rightarrow> level list" where
  "local_lows recent_data cur =
     map (\<lambda>i. \<lparr> price = low (recent_data ! i), desc = Recent_low (date (recent_data ! i)),
                level_strength = medium \<rparr>)
       (filter (\<lambda>i. low (recent_data ! i) < low (recent_data ! (i - 1))
                   \<and> low (recent_data ! i) < low (recent_data ! (i + 1))
                   \<and> low (recent_data ! i) < cur)
          [1 ..< length recent_data - 1])"

definition extrema_levels :: "snapshot list \<Rightarrow> rat \<Rightarrow> levels_state \<Rightarrow> levels_state" where
  "extrema_levels df cur st =
     (let recent_data = drop (length df - 20) df
      in (fst st @ local_lows recent_data cur, snd st @ local_highs recent_data cur))"

definition atr_levels :: "snapshot \<Rightarrow> levels_state \<Rightarrow> levels_state" where
  "atr_levels latest st =
     (case ATR latest of
        None \<Rightarrow> st
      | Some a \<Rightarrow>
          if a > 0 then
            add_resistance
              \<lparr> price = close latest + (a * 2), desc = ATR_target, level_strength = medium \<rparr>
              (add_support
                 \<lparr> price = close latest - (a * 2), desc = ATR_stop, level_strength = strong \<rparr> st)
          else st)"

definition collect_levels :: "snapshot list \<Rightarrow> snapshot \<Rightarrow> levels_state" where
  "collect_levels df latest =
     atr_levels latest (extrema_levels df (close latest)
       (vwap_level latest (sar_level latest (bb_levels latest (ma_levels latest ([], []))))))"

text \<open>
  The test of \<open>remove_close_levels\<close>:
  \<open>abs(level['price'] - filtered[-1]['price']) / filtered[-1]['price'] > tolerance\<close>.
  The prices are numpy floats: a division by zero does not raise, a positive number over
  zero is infinite (the test holds) and zero over zero is NaN (the test fails).
\<close>

definition far_enough :: "rat \<Rightarrow> rat \<Rightarrow> rat \<Rightarrow> bool" where
  "far_enough tolerance p kept =
     (if kept = 0 then p \<noteq> kept else \<bar>p - kept\<bar> / kept > tolerance)"

fun remove_close_loop :: "rat \<Rightarrow> level list \<Rightarrow> level list \<Rightarrow> level list" where
  "remove_close_loop tolerance filtered [] = filtered"
| "remove_close_loop tolerance filtered (l # ls) =
     remove_close_loop tolerance
       (if far_enough tolerance (price l) (price (last filtered)) then filtered @ [l]
        else filtered) ls"

definition remove_close_levels :: "rat \<Rightarrow> level list \<Rightarrow> level list" where
  "remove_close_levels tolerance levels =
     (if levels = [] then [] else remove_close_loop tolerance [hd levels] (tl levels))"

text \<open>
  Python's \<open>sorted\<close> is stable, also with \<open>reverse=True\<close>: levels of equal price
  keep their order. \<open>sort_key\<close> is stable too, and sorting on the negated price
  gives the descending order.
\<close>

definition calculate_support_resistance ::
  "snapshot list \<Rightarrow> nat \<Rightarrow> py_error + levels_result" where
  "calculate_support_resistance df num_levels =
     (if df = [] then Inl IndexError
      else
        (let latest = df ! (length df - 1);
             st = collect_levels df latest;
             support_levels = sort_key (\<lambda>x. - price x) (fst st);
             resistance_levels = sort_key (\<lambda>x. price x) (snd st);
             support_levels = remove_close_levels (5 / 1000) support_levels;
             resistance_levels = remove_close_levels (5 / 1000) resistance_levels
         in Inr \<lparr> support = take num_levels support_levels,
                  resistance = take num_levels resistance_levels,
                  current_price = close latest \<rparr>))"

text \<open>The call with the default \<open>num_levels=3\<close>.\<close>

definition calculate_support_resistance_default ::
  "snapshot list \<Rightarrow> py_error + levels_result" where
  "calculate_support_resistance_default df = calculate_support_resistance df 3"

section \<open>The VWAP block of \<open>calculate_technical_indicators\<close>\<close>

text \<open>
  The block runs when the frame has a \<open>date\<close> column, which every frame of the model
  has. It reads the time stamp, the columns \<open>high\<close>, \<open>low\<close> and \<open>close\<close>, which are
  float64, and the column \<open>volume\<close>, which is int64: a 64-bit two's-complement integer
  whose addition wraps around. The fields carry the prefix \<open>bar_\<close>.
\<close>

record bar =
  bar_date :: datetime
  bar_high :: dbl
  bar_low :: dbl
  bar_close :: dbl
  bar_volume :: "64 word"

text \<open>\<open>date_only\<close> is the calendar day of the row's time stamp.\<close>

definition date_only :: "datetime \<Rightarrow> nat \<times> nat \<times> nat" where
  "date_only d = (year d, month d, day d)"

text \<open>
  Where a float64 column meets an int64 column in a product or a quotient, the integer
  is converted to the nearest float64 first.
\<close>

definition of_int64 :: "64 word \<Rightarrow> dbl" where
  "of_int64 w = fl (of_int (sint w))"

definition typical_price :: "bar \<Rightarrow> dbl" where
  "typical_price r = fdiv (fadd (fadd (bar_high r) (bar_low r)) (bar_close r)) (Fin 3)"

definition tp_volume :: "bar \<Rightarrow> dbl" where
  "tp_volume r = fmul (typical_price r) (of_int64 (bar_volume r))"

text \<open>
  \<open>df.groupby(key)[column].cumsum()\<close>: one pass over the rows in index order that keeps
  an accumulator for every key seen so far, starting from \<open>init\<close>, and gives each row
  the running sum of its key, the row included. \<open>step\<close> adds a value to an accumulator
  and yields the new accumulator and the running sum to write out.
\<close>

fun group_cumsum ::
  "('s \<Rightarrow> 'a \<Rightarrow> 's \<times> 'b) \<Rightarrow> 's \<Rightarrow> ('k \<rightharpoonup> 's) \<Rightarrow> ('k \<times> 'a) list \<Rightarrow> 'b list" where
  "group_cumsum step init acc [] = []"
| "group_cumsum step init acc ((k, v) # xs) =
     (let (s, out) = step (case acc k of None \<Rightarrow> init | Some a \<Rightarrow> a) v
      in out # group_cumsum step init (acc(k \<mapsto> s)) xs)"

text \<open>
  On an int64 column the accumulator is the running sum, starting from 0, in wrap-around
  arithmetic.
\<close>

definition int64_step :: "64 word \<Rightarrow> 64 word \<Rightarrow> 64 word \<times> 64 word" where
  "int64_step accum val = (let t = val + accum in (t, t))"

text \<open>
  On a float64 column a NaN value is skipped: its row gets NaN and the accumulator stays.
  How the other values are added has changed between releases of pandas, so the column
  function below takes the float accumulator as a parameter. \<open>plain_step\<close>, from 0, is
  the running floating-point sum of the older releases; \<open>kahan_step\<close>, from the pair
  (0, 0), is the compensated sum of the newer ones, which carries the rounding error of
  the last addition into the next and drops a compensation that has become NaN.
\<close>

definition plain_step :: "dbl \<Rightarrow> dbl \<Rightarrow> dbl \<times> dbl" where
  "plain_step accum val =
     (if val = NaN then (accum, NaN)
      else let t = fadd accum val in (t, t))"

definition kahan_step :: "dbl \<times> dbl \<Rightarrow> dbl \<Rightarrow> (dbl \<times> dbl) \<times> dbl" where
  "kahan_step s val =
     (case s of (accum, compensation) \<Rightarrow>
        if val = NaN then (s, NaN)
        else let y = fsub val compensation;
                 t = fadd accum y;
                 c = fsub (fsub t accum) y
             in ((t, if c = NaN then Fin 0 else c), t))"

text \<open>
  The VWAP column: the two cumulative columns, grouped by \<open>date_only\<close>, and their
  quotient. The cumulative volume is never a negative zero, so a zero divisor gives
  an infinity with the sign of the dividend, and NaN for zero over zero.
\<close>

definition vwap_column ::
  "('s \<Rightarrow> dbl \<Rightarrow> 's \<times> dbl) \<Rightarrow> 's \<Rightarrow> bar list \<Rightarrow> dbl list" where
  "vwap_column step init df =
     (let keys = map (\<lambda>r. date_only (bar_date r)) df;
          cumulative_tp_volume = group_cumsum step init Map.empty (zip keys (map tp_volume df));
          cumulative_volume = group_cumsum int64_step 0 Map.empty (zip keys (map bar_volume df))
      in map2 (\<lambda>ctv cv. fdiv ctv (of_int64 cv)) cumulative_tp_volume cumulative_volume)"

section \<open>The cache: \<open>StockDatabase\<close>\<close>

subsection \<open>Text values\<close>

text \<open>
  SQLite compares two TEXT values byte by byte, a proper prefix being smaller.
\<close>

fun bytes_less :: "nat list \<Rightarrow> nat list \<Rightarrow> bool" where
  "bytes_less [] [] = False"
| "bytes_less [] (y # ys) = True"
| "bytes_less (x # xs) [] = False"
| "bytes_less (x # xs) (y # ys) = (x < y \<or> (x = y \<and> bytes_less xs ys))"

definition text_less :: "string \<Rightarrow> string \<Rightarrow> bool" where
  "text_less a b = bytes_less (map of_char a) (map of_char b)"

definition digit :: "nat \<Rightarrow> char" where
  "digit n = ''0123456789'' ! (n mod 10)"

text \<open>\<open>zpad k n\<close> are the last \<open>k\<close> decimal digits of \<open>n\<close>, with leading zeros.\<close>

fun zpad :: "nat \<Rightarrow> nat \<Rightarrow> string" where
  "zpad 0 n = []"
| "zpad (Suc k) n = zpad k (n div 10) @ [digit n]"

text \<open>\<open>strftime('%Y-%m-%d')\<close>.\<close>

definition strftime_ymd :: "datetime \<Rightarrow> string" where
  "strftime_ymd d = zpad 4 (year d) @ ''-'' @ zpad 2 (month d) @ ''-'' @ zpad 2 (day d)"

definition hms :: "datetime \<Rightarrow> string" where
  "hms d = zpad 2 (hour d) @ '':'' @ zpad 2 (minute d) @ '':'' @ zpad 2 (second d)"

text \<open>
  Python's \<open>datetime.isoformat()\<close>: the separator is the letter T, and the fraction
  is printed unless the microseconds are zero.
\<close>

definition isoformat :: "datetime \<Rightarrow> string" where
  "isoformat d =
     strftime_ymd d @ ''T'' @ hms d
       @ (if microsecond d = 0 then [] else ''.'' @ zpad 6 (microsecond d))"

text \<open>
  SQLite's \<open>datetime('now')\<close> and \<open>CURRENT_TIMESTAMP\<close>, from the UTC clock: the
  separator is a space and there is no fraction.
\<close>

definition sqlite_datetime :: "datetime \<Rightarrow> string" where
  "sqlite_datetime d = strftime_ymd d @ '' '' @ hms d"

text \<open>\<open>d + timedelta(hours=h)\<close>, through the Gregorian calendar.\<close>

definition is_leap :: "nat \<Rightarrow> bool" where
  "is_leap y = (y mod 4 = 0 \<and> (y mod 100 \<noteq> 0 \<or> y mod 400 = 0))"

definition days_in_month :: "nat \<Rightarrow> nat \<Rightarrow> nat" where
  "days_in_month y m =
     (if m = 2 then (if is_leap y then 29 else 28)
      else if m = 4 \<or> m = 6 \<or> m = 9 \<or> m = 11 then 30 else 31)"

definition next_day :: "datetime \<Rightarrow> datetime" where
  "next_day d =
     (if day d < days_in_month (year d) (month d) then d\<lparr>day := day d + 1\<rparr>
      else if month d < 12 then d\<lparr>month := month d + 1, day := 1\<rparr>
      else d\<lparr>year := year d + 1, month := 1, day := 1\<rparr>)"

definition add_hours :: "datetime \<Rightarrow> nat \<Rightarrow> datetime" where
  "add_hours d h = ((next_day ^^ ((hour d + h) div 24)) d)\<lparr>hour := (hour d + h) mod 24\<rparr>"

subsection \<open>Tables\<close>

text \<open>
  A table is the list of its rows in insertion order. The columns \<open>id\<close>,
  \<open>created_at\<close> and \<open>updated_at\<close> of \<open>stock_prices\<close> and
  \<open>institutional_trades\<close>, which no statement of the module reads, are left out.
  A REAL column holds a number or NULL (\<open>None\<close>); a NaN is stored as NULL.
\<close>

record price_row =
  sp_symbol :: string
  sp_date :: string
  sp_open :: fval
  sp_high :: fval
  sp_low :: fval
  sp_close :: fval
  sp_volume :: fval

record inst_row =
  it_symbol :: string
  it_date :: string
  foreign_investor :: fval
  investment_trust :: fval
  dealer_self :: fval
  dealer_hedging :: fval
  dealer_total :: fval
  total_institutional :: fval

record news_row =
  nc_symbol :: string
  nc_content :: string
  nc_source :: string
  nc_created_at :: string
  nc_expires_at :: string

record database =
  stock_prices :: "price_row list"
  institutional_trades :: "inst_row list"
  news_cache :: "news_row list"

subsection \<open>Data frames handed to the cache\<close>

text \<open>
  A frame is the list of its column names and the list of its rows. The rows are typed:
  they hold the values of the columns that the cache reads. The model looks at the
  column names before it reads a row, as the source does.
\<close>

record 'r frame =
  df_columns :: "string list"
  df_rows :: "'r list"

definition df_empty :: "'r frame \<Rightarrow> bool" where
  "df_empty f = (df_rows f = [] \<or> df_columns f = [])"

text \<open>
  A row of a price frame; \<open>pf_date\<close> is the text that \<open>astype(str)\<close> gives for the
  date of the row.
\<close>

record price_input =
  pf_date :: string
  pf_open :: fval
  pf_high :: fval
  pf_low :: fval
  pf_close :: fval
  pf_volume :: fval

record inst_input =
  if_date :: datetime
  if_Foreign_Investor :: fval
  if_Investment_Trust :: fval
  if_Dealer_Self :: fval
  if_Dealer_Hedging :: fval
  if_Dealer_Total :: fval
  if_Total :: fval

subsection \<open>\<open>save_stock_data\<close>\<close>

definition price_columns :: "string list" where
  "price_columns = [''date'', ''open'', ''high'', ''low'', ''close'', ''volume'']"

definition price_row_of :: "string \<Rightarrow> price_input \<Rightarrow> price_row" where
  "price_row_of symbol r =
     \<lparr> sp_symbol = symbol, sp_date = pf_date r, sp_open = pf_open r, sp_high = pf_high r,
       sp_low = pf_low r, sp_close = pf_close r, sp_volume = pf_volume r \<rparr>"

text \<open>
  \<open>to_sql(..., if_exists='append', method='multi')\<close> sends one plain INSERT statement
  with all the rows. The table has the constraint UNIQUE(symbol, date): a row whose key
  is already in the table, or earlier in the same statement, fails the statement with an
  integrity error.
\<close>

fun to_sql_append :: "price_row list \<Rightarrow> price_row list \<Rightarrow> py_error + price_row list" where
  "to_sql_append tbl [] = Inr tbl"
| "to_sql_append tbl (r # rs) =
     (if \<exists>x \<in> set tbl. sp_symbol x = sp_symbol r \<and> sp_date x = sp_date r
      then Inl IntegrityError
      else to_sql_append (tbl @ [r]) rs)"

text \<open>
  The body of the \<open>try\<close>: selecting a missing column raises a key error. The
  \<open>except\<close> branch logs the error and rolls the transaction back, so that the
  database is as before the call.
\<close>

definition save_stock_data :: "database \<Rightarrow> string \<Rightarrow> price_input frame option \<Rightarrow> database" where
  "save_stock_data db symbol df =
     (case df of
        None \<Rightarrow> db
      | Some f \<Rightarrow>
          if df_empty f then db
          else
            (case (if set price_columns \<subseteq> set (df_columns f)
                   then to_sql_append (stock_prices db) (map (price_row_of symbol) (df_rows f))
                   else Inl KeyError) of
               Inl e \<Rightarrow> db
             | Inr tbl \<Rightarrow> db\<lparr>stock_prices := tbl\<rparr>))"

subsection \<open>\<open>save_institutional_data\<close>\<close>

definition required_columns :: "string list" where
  "required_columns =
     [''date'', ''Foreign_Investor'', ''Investment_Trust'', ''Dealer_Self'',
      ''Dealer_Hedging'', ''Dealer_Total'', ''Total'']"

definition inst_row_of :: "string \<Rightarrow> inst_input \<Rightarrow> inst_row" where
  "inst_row_of symbol r =
     \<lparr> it_symbol = symbol, it_date = strftime_ymd (if_date r),
       foreign_investor = if_Foreign_Investor r, investment_trust = if_Investment_Trust r,
       dealer_self = if_Dealer_Self r, dealer_hedging = if_Dealer_Hedging r,
       dealer_total = if_Dealer_Total r, total_institutional = if_Total r \<rparr>"

text \<open>INSERT OR REPLACE: the row with the same (symbol, date) is deleted first.\<close>

definition insert_or_replace :: "inst_row list \<Rightarrow> inst_row \<Rightarrow> inst_row list" where
  "insert_or_replace tbl r =
     filter (\<lambda>x. \<not> (it_symbol x = it_symbol r \<and> it_date x = it_date r)) tbl @ [r]"

text \<open>
  The result is the database and the returned flag. With rows of the type above no
  statement of the \<open>try\<close> block raises.
\<close>

definition save_institutional_data ::
  "database \<Rightarrow> string \<Rightarrow> inst_input frame option \<Rightarrow> database \<times> bool" where
  "save_institutional_data db symbol df =
     (case df of
        None \<Rightarrow> (db, False)
      | Some f \<Rightarrow>
          if df_empty f then (db, False)
          else if filter (\<lambda>col. col \<notin> set (df_columns f)) required_columns \<noteq> []
          then (db, False)
          else
            (let deleted = filter (\<lambda>x. it_symbol x \<noteq> symbol) (institutional_trades db);
                 tbl = foldl insert_or_replace deleted (map (inst_row_of symbol) (df_rows f))
             in (db\<lparr>institutional_trades := tbl\<rparr>, True)))"

subsection \<open>\<open>save_news_cache\<close> and \<open>get_news_cache\<close>\<close>

text \<open>
  The clocks are parameters: \<open>now_local\<close> is what \<open>datetime.now()\<close> returns, the
  local time; \<open>now_utc\<close> is the UTC time that SQLite uses for \<open>CURRENT_TIMESTAMP\<close>
  and \<open>datetime('now')\<close>. The table has the constraint UNIQUE(symbol, created_at).
\<close>

definition save_news_cache ::
  "database \<Rightarrow> datetime \<Rightarrow> datetime \<Rightarrow> string \<Rightarrow> string \<Rightarrow> string \<Rightarrow> nat \<Rightarrow> database" where
  "save_news_cache db now_local now_utc symbol content source expires_hours =
     (let expires_at = isoformat (add_hours now_local expires_hours);
          r = \<lparr> nc_symbol = symbol, nc_content = content, nc_source = source,
                nc_created_at = sqlite_datetime now_utc, nc_expires_at = expires_at \<rparr>
      in db\<lparr>news_cache :=
              filter (\<lambda>x. \<not> (nc_symbol x = symbol \<and> nc_created_at x = nc_created_at r))
                (news_cache db) @ [r]\<rparr>)"

text \<open>The call with the defaults \<open>source='perplexity'\<close> and \<open>expires_hours=24\<close>.\<close>

definition save_news_cache_default ::
  "database \<Rightarrow> datetime \<Rightarrow> datetime \<Rightarrow> string \<Rightarrow> string \<Rightarrow> database" where
  "save_news_cache_default db now_local now_utc symbol content =
     save_news_cache db now_local now_utc symbol content ''perplexity'' 24"

text \<open>\<open>ORDER BY created_at DESC LIMIT 1\<close>: the row with the greatest \<open>created_at\<close>.\<close>

fun newest :: "news_row list \<Rightarrow> news_row option" where
  "newest [] = None"
| "newest (r # rs) =
     (case newest rs of
        None \<Rightarrow> Some r
      | Some m \<Rightarrow> if text_less (nc_created_at r) (nc_created_at m) then Some m else Some r)"

record news_result =
  content :: string
  source :: string
  created_at :: string

definition get_news_cache :: "database \<Rightarrow> datetime \<Rightarrow> string \<Rightarrow> news_result option" where
  "get_news_cache db now_utc symbol =
     (case newest (filter (\<lambda>x. nc_symbol x = symbol
                               \<and> text_less (sqlite_datetime now_utc) (nc_expires_at x))
                     (news_cache db)) of
        None \<Rightarrow> None
      | Some r \<Rightarrow>
          Some \<lparr> content = nc_content r, source = nc_source r, created_at = nc_created_at r \<rparr>)"

section \<open>Vocabulary of the properties and concrete inputs\<close>

text \<open>
  A golden cross of the MACD line over its signal line between the previous and the
  latest row: the difference is at most zero before and positive now.
\<close>

definition macd_golden_cross :: "snapshot \<Rightarrow> snapshot \<Rightarrow> bool" where
  "macd_golden_cross latest prev =
     (case (MACD prev, MACD_signal prev, MACD latest, MACD_signal latest) of
        (Some a, Some b, Some c, Some d) \<Rightarrow> a - b \<le> 0 \<and> c - d > 0
      | _ \<Rightarrow> False)"

text \<open>The condition of one of the blocks 2 to 10 of the signal composer holds.\<close>

definition other_rules_fire :: "snapshot list \<Rightarrow> snapshot \<Rightarrow> snapshot \<Rightarrow> bool" where
  "other_rules_fire df latest prev =
     ((fgt (KD_K latest) (KD_D latest) \<and> fle (KD_K prev) (KD_D prev))
      \<or> (flt (KD_K latest) (KD_D latest) \<and> fge (KD_K prev) (KD_D prev))
      \<or> flt (RSI latest) (Some 30) \<or> fgt (RSI latest) (Some 70)
      \<or> fgt (Williams_R latest) (Some (- 20)) \<or> flt (Williams_R latest) (Some (- 80))
      \<or> fgt (ADX latest) (Some 25)
      \<or> fgt (CCI latest) (Some 100) \<or> flt (CCI latest) (Some (- 100))
      \<or> (length df \<ge> 5 \<and>
          (close latest > close (df ! (length df - 5)))
            \<noteq> fgt (OBV latest) (OBV (df ! (length df - 5))))
      \<or> fgt (Some (close latest)) (BB_upper latest)
      \<or> flt (Some (close latest)) (BB_lower latest)
      \<or> fgt (Volume_Ratio latest) (Some 150)
      \<or> fgt (ROC_5 latest) (Some 5) \<or> flt (ROC_5 latest) (Some (- 5)))"

text \<open>A row on which no block of the signal composer fires.\<close>

definition neutral_snapshot :: snapshot where
  "neutral_snapshot =
     \<lparr> date = \<lparr> year = 2024, month = 1, day = 2, hour = 0, minute = 0, second = 0,
                microsecond = 0 \<rparr>,
       high = 101, low = 99, close = 100, volume = 1000,
       MA5 = None, MA10 = None, MA20 = None, MA60 = None,
       BB_upper = Some 110, BB_lower = Some 90,
       MACD = Some 0, MACD_signal = Some 0,
       RSI = Some 50, KD_K = Some 50, KD_D = Some 50, Williams_R = Some (- 50),
       ATR = Some 2, OBV = Some 0, ADX = Some 20, DI_plus = Some 20, DI_minus = Some 20,
       CCI = Some 0, VWAP = None, SAR = None, Volume_Ratio = Some 100, ROC_5 = Some 0 \<rparr>"

text \<open>
  Two rows with MACD = -0.5, signal = -0.2 on the previous row and MACD = 0.1,
  signal = 0.05 on the latest row.
\<close>

definition macd_example :: "snapshot list" where
  "macd_example =
     [neutral_snapshot\<lparr>MACD := Some (- 1 / 2), MACD_signal := Some (- 1 / 5)\<rparr>,
      neutral_snapshot\<lparr>MACD := Some (1 / 10), MACD_signal := Some (1 / 20)\<rparr>]"

text \<open>
  Five rows on whose last row every bullish block fires: the raw score is 115.
\<close>

definition bullish_example :: "snapshot list" where
  "bullish_example =
     [neutral_snapshot, neutral_snapshot, neutral_snapshot,
      neutral_snapshot\<lparr>MACD := Some (- 1), KD_K := Some 10, KD_D := Some 20\<rparr>,
      neutral_snapshot\<lparr>MACD := Some 1, KD_K := Some 25, KD_D := Some 20, RSI := Some 20,
        Williams_R := Some (- 90), ADX := Some 30, DI_plus := Some 30, CCI := Some (- 150),
        OBV := Some 10, BB_upper := Some 95, Volume_Ratio := Some 200, ROC_5 := Some 6\<rparr>]"

text \<open>
  The loop of \<open>remove_close_levels\<close> as a recursion on the candidates: \<open>k\<close> is the
  level kept last.
\<close>

fun keep_far :: "rat \<Rightarrow> level \<Rightarrow> level list \<Rightarrow> level list" where
  "keep_far tol k [] = [k]"
| "keep_far tol k (l # ls) =
     (if far_enough tol (price l) (price k) then k # keep_far tol l ls else keep_far tol k ls)"

text \<open>A level of a given price, and a one-row frame for the level finder.\<close>

definition lv :: "rat \<Rightarrow> level" where
  "lv p = \<lparr> price = p, desc = ATR_stop, level_strength = strong \<rparr>"

definition levels_example :: "snapshot list" where
  "levels_example =
     [neutral_snapshot\<lparr>close := 102, MA5 := Some 100, MA10 := Some (1003 / 10),
        MA20 := Some 101\<rparr>]"

definition levels_example_result :: levels_result where
  "levels_example_result =
     \<lparr> support =
         [\<lparr> price = 101, desc = MA_support ''MA20'', level_strength = medium \<rparr>,
          \<lparr> price = 1003 / 10, desc = MA_support ''MA10'', level_strength = medium \<rparr>,
          \<lparr> price = 98, desc = ATR_stop, level_strength = strong \<rparr>],
       resistance =
         [\<lparr> price = 106, desc = ATR_target, level_strength = medium \<rparr>,
          \<lparr> price = 110, desc = BB_upper_resistance, level_strength = strong \<rparr>],
       current_price = 102 \<rparr>"

text \<open>The floats nearest to 438.44 and to 22.89.\<close>

definition binary_price :: dbl where "binary_price = fl (43844 / 100)"
definition binary_atr :: dbl where "binary_atr = fl (2289 / 100)"

text \<open>
  The running sums of one list of values, and the accumulator that \<open>group_cumsum\<close>
  holds for a key, \<open>init\<close> if it has none.
\<close>

fun cumsum :: "('s \<Rightarrow> 'a \<Rightarrow> 's \<times> 'b) \<Rightarrow> 's \<Rightarrow> 'a list \<Rightarrow> 'b list" where
  "cumsum step s [] = []"
| "cumsum step s (v # vs) = (let (s', out) = step s v in out # cumsum step s' vs)"

definition base :: "'s \<Rightarrow> ('k \<rightharpoonup> 's) \<Rightarrow> 'k \<Rightarrow> 's" where
  "base init acc k = (case acc k of None \<Rightarrow> init | Some a \<Rightarrow> a)"

text \<open>
  The rows up to row \<open>i\<close> that fall on the calendar day of row \<open>i\<close>, the sum of
  their volumes as an integer, and whether that sum is in the range of int64.
\<close>

definition same_day_so_far :: "bar list \<Rightarrow> nat \<Rightarrow> bar list" where
  "same_day_so_far df i =
     filter (\<lambda>r. date_only (bar_date r) = date_only (bar_date (df ! i))) (take (Suc i) df)"

definition day_volume :: "bar list \<Rightarrow> nat \<Rightarrow> int" where
  "day_volume df i = sum_list (map (\<lambda>r. sint (bar_volume r)) (same_day_so_far df i))"

definition day_volume_fits :: "bar list \<Rightarrow> nat \<Rightarrow> bool" where
  "day_volume_fits df i = (- (2 ^ 63) \<le> day_volume df i \<and> day_volume df i < 2 ^ 63)"

text \<open>
  The within-day ratio in the words of the claim, in exact arithmetic: the sum of typical
  price times volume over those rows, divided by the sum of their volumes.
\<close>

definition exact :: "dbl \<Rightarrow> rat" where
  "exact a = (case a of Fin x \<Rightarrow> x | _ \<Rightarrow> 0)"

definition within_day_ratio :: "bar list \<Rightarrow> nat \<Rightarrow> rat" where
  "within_day_ratio df i =
     sum_list (map (\<lambda>r. (exact (bar_high r) + exact (bar_low r) + exact (bar_close r)) / 3
                          * of_int (sint (bar_volume r))) (same_day_so_far df i))
       / of_int (day_volume df i)"

text \<open>
  The quotient of the running totals over the whole series, for comparison.
\<close>

definition running_column ::
  "('s \<Rightarrow> dbl \<Rightarrow> 's \<times> dbl) \<Rightarrow> 's \<Rightarrow> bar list \<Rightarrow> dbl list" where
  "running_column step init df =
     map2 (\<lambda>ctv cv. fdiv ctv (of_int64 cv))
       (cumsum step init (map tp_volume df)) (cumsum int64_step 0 (map bar_volume df))"

text \<open>
  One bar on a first day and two bars, at 9 and at 13 o'clock, on the next day; and three
  bars of one day with a volume of \<open>2 ^ 62\<close> each.
\<close>

definition intraday :: "nat \<Rightarrow> nat \<Rightarrow> datetime" where
  "intraday d h = \<lparr> year = 2024, month = 1, day = d, hour = h, minute = 0, second = 0,
                    microsecond = 0 \<rparr>"

definition vwap_example :: "bar list" where
  "vwap_example =
     [\<lparr> bar_date = intraday 2 9, bar_high = Fin 12, bar_low = Fin 8, bar_close = Fin 10,
        bar_volume = 400 \<rparr>,
      \<lparr> bar_date = intraday 3 9, bar_high = Fin 22, bar_low = Fin 18, bar_close = Fin 20,
        bar_volume = 100 \<rparr>,
      \<lparr> bar_date = intraday 3 13, bar_high = Fin 28, bar_low = Fin 24, bar_close = Fin 26,
        bar_volume = 300 \<rparr>]"

definition heavy_bar :: "nat \<Rightarrow> bar" where
  "heavy_bar h =
     \<lparr> bar_date = intraday 2 h, bar_high = Fin 10, bar_low = Fin 10, bar_close = Fin 10,
       bar_volume = 4611686018427387904 \<rparr>"

definition heavy_day :: "bar list" where
  "heavy_day = [heavy_bar 9, heavy_bar 10, heavy_bar 11]"

text \<open>
  A database that holds the bar of 2024-01-02 of symbol 2330 with close 100, a frame with
  that day again and close 101, and a frame row for the next day.
\<close>

definition day_of :: "nat \<Rightarrow> datetime" where
  "day_of d = \<lparr> year = 2024, month = 1, day = d, hour = 0, minute = 0, second = 0,
                microsecond = 0 \<rparr>"

definition stored_price :: price_row where
  "stored_price =
     \<lparr> sp_symbol = ''2330'', sp_date = ''2024-01-02'', sp_open = Some 99, sp_high = Some 101,
       sp_low = Some 98, sp_close = Some 100, sp_volume = Some 1000 \<rparr>"

definition price_db :: database where
  "price_db = \<lparr> stock_prices = [stored_price], institutional_trades = [], news_cache = [] \<rparr>"

definition refreshed_bar :: price_input where
  "refreshed_bar =
     \<lparr> pf_date = ''2024-01-02'', pf_open = Some 99, pf_high = Some 102,
       pf_low = Some 98, pf_close = Some 101, pf_volume = Some 1200 \<rparr>"

definition next_bar :: price_input where
  "next_bar =
     \<lparr> pf_date = ''2024-01-03'', pf_open = Some 101, pf_high = Some 103,
       pf_low = Some 100, pf_close = Some 102, pf_volume = Some 900 \<rparr>"

definition price_frame :: "price_input list \<Rightarrow> price_input frame" where
  "price_frame rs = \<lparr> df_columns = price_columns, df_rows = rs \<rparr>"

text \<open>
  A database that holds institutional rows of 2024-01-01 for the symbols 2330 and 2317,
  and a batch for 2330 with the one date 2024-01-02.
\<close>

definition stored_inst :: inst_row where
  "stored_inst =
     \<lparr> it_symbol = ''2330'', it_date = ''2024-01-01'', foreign_investor = Some 10,
       investment_trust = Some 20, dealer_self = Some 1, dealer_hedging = Some 2,
       dealer_total = Some 3, total_institutional = Some 33 \<rparr>"

definition other_inst :: inst_row where
  "other_inst = stored_inst\<lparr>it_symbol := ''2317''\<rparr>"

definition inst_db :: database where
  "inst_db = \<lparr> stock_prices = [], institutional_trades = [stored_inst, other_inst],
               news_cache = [] \<rparr>"

definition inst_batch_row :: inst_input where
  "inst_batch_row =
     \<lparr> if_date = day_of 2, if_Foreign_Investor = Some 5, if_Investment_Trust = Some 6,
       if_Dealer_Self = Some 1, if_Dealer_Hedging = Some 1, if_Dealer_Total = Some 2,
       if_Total = Some 13 \<rparr>"

definition inst_batch :: "inst_input frame" where
  "inst_batch = \<lparr> df_columns = required_columns, df_rows = [inst_batch_row] \<rparr>"

definition new_inst :: inst_row where
  "new_inst =
     \<lparr> it_symbol = ''2330'', it_date = ''2024-01-02'', foreign_investor = Some 5,
       investment_trust = Some 6, dealer_self = Some 1, dealer_hedging = Some 1,
       dealer_total = Some 2, total_institutional = Some 13 \<rparr>"

text \<open>
  A batch for 2330 with two rows of the date 2024-01-02, and the row that the second of
  them makes.
\<close>

definition inst_batch_row2 :: inst_input where
  "inst_batch_row2 = inst_batch_row\<lparr>if_Foreign_Investor := Some 7, if_Total := Some 15\<rparr>"

definition inst_batch_twice :: "inst_input frame" where
  "inst_batch_twice =
     \<lparr> df_columns = required_columns, df_rows = [inst_batch_row, inst_batch_row2] \<rparr>"

definition newer_inst :: inst_row where
  "newer_inst = new_inst\<lparr>foreign_investor := Some 7, total_institutional := Some 15\<rparr>"

text \<open>
  A news record saved with the default 24 hours at 09:00:00.25 on 2024-03-10, on a
  machine whose local time is UTC, and four query times on the UTC clock: 23 hours 59
  minutes later, 24 hours 1 minute later, the last second of that day, and the start of
  the next day.
\<close>

definition empty_db :: database where
  "empty_db = \<lparr> stock_prices = [], institutional_trades = [], news_cache = [] \<rparr>"

definition t_insert :: datetime where
  "t_insert = \<lparr> year = 2024, month = 3, day = 10, hour = 9, minute = 0, second = 0,
                microsecond = 250000 \<rparr>"

definition news_db :: database where
  "news_db = save_news_cache_default empty_db t_insert t_insert ''2330'' ''news''"

definition t_query :: "nat \<Rightarrow> nat \<Rightarrow> nat \<Rightarrow> nat \<Rightarrow> datetime" where
  "t_query d h m s = \<lparr> year = 2024, month = 3, day = d, hour = h, minute = m, second = s,
                       microsecond = 0 \<rparr>"

definition news_hit :: news_result where
  "news_hit = \<lparr> content = ''news'', source = ''perplexity'',
                created_at = ''2024-03-10 09:00:00'' \<rparr>"

definition t_before :: datetime where
  "t_before = t_query 11 8 59 0"

definition t_after :: datetime where
  "t_after = t_query 11 9 1 0"

definition t_late :: datetime where
  "t_late = t_query 11 23 59 59"

definition t_next_day :: datetime where
  "t_next_day = t_query 12 0 0 0"


section \<open>Properties of the signal composer\<close>

lemma get_daytrading_signals_Some:
  "get_daytrading_signals df = Some r \<Longrightarrow>
     r = compose_report (df ! (length df - 1))
           (score_rules df (df ! (length df - 1)) (df ! (length df - 2)))"
  by (simp add: get_daytrading_signals_def Let_def split: if_splits)

lemma get_daytrading_signals_long:
  "2 \<le> length df \<Longrightarrow>
     get_daytrading_signals df =
       Some (compose_report (df ! (length df - 1))
               (score_rules df (df ! (length df - 1)) (df ! (length df - 2))))"
  by (auto simp: get_daytrading_signals_def Let_def)

lemma clamp_recommend:
  fixes s :: int
  defines "t \<equiv> max (min s 100) (- 100)"
  shows "- 100 \<le> t \<and> t \<le> 100
    \<and> (recommend s = STRONG_BUY \<longleftrightarrow> t \<ge> 30)
    \<and> (recommend s = BUY \<longleftrightarrow> 15 \<le> t \<and> t < 30)
    \<and> (recommend s = STRONG_SELL \<longleftrightarrow> t \<le> - 30)
    \<and> (recommend s = SELL \<longleftrightarrow> - 30 < t \<and> t \<le> - 15)
    \<and> (recommend s = HOLD \<longleftrightarrow> - 15 < t \<and> t < 15)"
  unfolding t_def recommend_def by auto

lemma macd_golden_cross_fires:
  "macd_golden_cross latest prev \<Longrightarrow>
     rule_macd latest prev st = fire MACD_golden_cross 15 st"
  by (auto simp: macd_golden_cross_def rule_macd_def fgt_def fle_def split: option.splits)

lemma other_rules_silent:
  assumes "\<not> other_rules_fire df latest prev"
  shows "rule_kd latest prev st = st" "rule_rsi latest st = st"
    "rule_williams latest st = st" "rule_adx latest st = st" "rule_cci latest st = st"
    "rule_obv df latest st = st" "rule_bb latest st = st" "rule_volume latest st = st"
    "rule_roc latest st = st"
  using assms
  by (auto simp: other_rules_fire_def rule_kd_def rule_rsi_def rule_williams_def rule_adx_def
      rule_cci_def rule_obv_def rule_bb_def rule_volume_def rule_roc_def Let_def)

text \<open>
  Claim C3. When the MACD line crosses from at or below its signal line on the previous
  row to above it on the latest row, and the condition of no other block holds, the
  report has strength 15, recommendation BUY and the golden cross as its only message.
\<close>

theorem macd_cross_alone_scores_15:
  assumes "2 \<le> length df"
    and "latest = df ! (length df - 1)" and "prev = df ! (length df - 2)"
    and "macd_golden_cross latest prev"
    and "\<not> other_rules_fire df latest prev"
  shows "\<exists>r. get_daytrading_signals df = Some r \<and> strength r = 15
           \<and> recommendation r = BUY \<and> signals r = [MACD_golden_cross]"
proof -
  have "score_rules df latest prev = ([MACD_golden_cross], 15)"
    using assms(4) other_rules_silent [OF assms(5)]
    by (simp add: score_rules_def macd_golden_cross_fires fire_def)
  moreover have "get_daytrading_signals df =
      Some (compose_report latest (score_rules df latest prev))"
    using assms(1-3) by (simp add: get_daytrading_signals_long)
  ultimately show ?thesis
    by (simp add: compose_report_def recommend_def)
qed

theorem macd_cross_alone_scores_15_witness:
  "2 \<le> length macd_example
   \<and> macd_golden_cross (macd_example ! 1) (macd_example ! 0)
   \<and> \<not> other_rules_fire macd_example (macd_example ! 1) (macd_example ! 0)
   \<and> (\<exists>r. get_daytrading_signals macd_example = Some r \<and> strength r = 15
          \<and> recommendation r = BUY \<and> signals r = [MACD_golden_cross])"
proof -
  have a: "2 \<le> length macd_example" by (simp add: macd_example_def)
  have b: "macd_example ! 1 = macd_example ! (length macd_example - 1)"
    and c: "macd_example ! 0 = macd_example ! (length macd_example - 2)"
    by (simp_all add: macd_example_def)
  have d: "macd_golden_cross (macd_example ! 1) (macd_example ! 0)"
    by (simp add: macd_example_def macd_golden_cross_def neutral_snapshot_def)
  have e: "\<not> other_rules_fire macd_example (macd_example ! 1) (macd_example ! 0)"
    by (simp add: macd_example_def other_rules_fire_def neutral_snapshot_def
        fgt_def flt_def fle_def fge_def)
  show ?thesis
    using a d e macd_cross_alone_scores_15 [OF a b c d e] by blast
qed

text \<open>
  Claim C5. On a frame of fewer than two rows, the empty frame included, the signal
  composer returns \<open>None\<close>. The function is total on the frames of the model: it
  returns before it reads a row.
\<close>

theorem short_frame_no_signal:
  "length df < 2 \<Longrightarrow> get_daytrading_signals df = None"
  by (simp add: get_daytrading_signals_def)

theorem short_frame_no_signal_witness:
  "length ([] :: snapshot list) < 2 \<and> get_daytrading_signals [] = None
   \<and> length [neutral_snapshot] < 2 \<and> get_daytrading_signals [neutral_snapshot] = None"
  using short_frame_no_signal [of "[]"] short_frame_no_signal [of "[neutral_snapshot]"]
  by simp

text \<open>
  Claim C10. Whenever the signal composer returns a report, its strength lies between
  -100 and 100 and its recommendation is the classification of that strength by the
  thresholds 30, 15, -15 and -30.
\<close>

theorem strength_matches_recommendation:
  assumes "get_daytrading_signals df = Some r"
  shows "- 100 \<le> strength r \<and> strength r \<le> 100
    \<and> (recommendation r = STRONG_BUY \<longleftrightarrow> strength r \<ge> 30)
    \<and> (recommendation r = BUY \<longleftrightarrow> 15 \<le> strength r \<and> strength r < 30)
    \<and> (recommendation r = STRONG_SELL \<longleftrightarrow> strength r \<le> - 30)
    \<and> (recommendation r = SELL \<longleftrightarrow> - 30 < strength r \<and> strength r \<le> - 15)
    \<and> (recommendation r = HOLD \<longleftrightarrow> - 15 < strength r \<and> strength r < 15)"
proof -
  obtain latest st where r: "r = compose_report latest st"
    using get_daytrading_signals_Some [OF assms] by blast
  show ?thesis
    using clamp_recommend [of "snd st"] by (simp add: r compose_report_def)
qed

lemma bullish_score:
  "score_rules bullish_example (bullish_example ! 4) (bullish_example ! 3) =
     ([MACD_golden_cross, KD_low_golden_cross, RSI_oversold, Williams_oversold,
       ADX_strong_uptrend, CCI_oversold, OBV_bottom_divergence, BB_break_upper,
       Volume_surge, ROC_strong], 115)"
  by (simp add: bullish_example_def neutral_snapshot_def score_rules_def rule_macd_def
      rule_kd_def rule_rsi_def rule_williams_def rule_adx_def rule_cci_def rule_obv_def
      rule_bb_def rule_volume_def rule_roc_def fire_def fgt_def flt_def fle_def fge_def)

lemma bullish_report:
  "\<exists>r. get_daytrading_signals bullish_example = Some r \<and> strength r = 100 \<and> recommendation r = STRONG_BUY"
proof -
  have "2 \<le> length bullish_example" by (simp add: bullish_example_def)
  from get_daytrading_signals_long [OF this]
  have "get_daytrading_signals bullish_example =
     Some (compose_report (bullish_example ! 4)
        (score_rules bullish_example (bullish_example ! 4) (bullish_example ! 3)))"
    by (simp add: bullish_example_def)
  then show ?thesis
    by (simp add: bullish_score compose_report_def recommend_def)
qed

theorem strength_matches_recommendation_witness:
  "\<exists>r. get_daytrading_signals bullish_example = Some r
       \<and> strength r = 100 \<and> recommendation r = STRONG_BUY
       \<and> - 100 \<le> strength r \<and> strength r \<le> 100
       \<and> (recommendation r = STRONG_BUY \<longleftrightarrow> strength r \<ge> 30)
       \<and> (recommendation r = BUY \<longleftrightarrow> 15 \<le> strength r \<and> strength r < 30)
       \<and> (recommendation r = STRONG_SELL \<longleftrightarrow> strength r \<le> - 30)
       \<and> (recommendation r = SELL \<longleftrightarrow> - 30 < strength r \<and> strength r \<le> - 15)
       \<and> (recommendation r = HOLD \<longleftrightarrow> - 15 < strength r \<and> strength r < 15)"
proof -
  obtain r where r: "get_daytrading_signals bullish_example = Some r"
    "strength r = 100" "recommendation r = STRONG_BUY"
    using bullish_report by blast
  show ?thesis
    using r strength_matches_recommendation [OF r(1)] by blast
qed

section \<open>Properties of binary floating point\<close>

lemma round_half_even_error: "\<bar>of_int (round_half_even y) - y\<bar> \<le> 1 / 2"
proof -
  have f: "of_int \<lfloor>y\<rfloor> \<le> y" "y < of_int \<lfloor>y\<rfloor> + 1"
    by linarith+
  show ?thesis
    using f unfolding round_half_even_def Let_def
    by (simp add: abs_le_iff)
qed

lemma expo_bounds:
  assumes "x \<noteq> 0"
  shows "2 powi (expo x) \<le> \<bar>x\<bar>" and "\<bar>x\<bar> < 2 powi (expo x + 1)"
proof -
  obtain p q where pq: "quotient_of \<bar>x\<bar> = (p, q)" by (cases "quotient_of \<bar>x\<bar>")
  have q: "q > 0" using pq by (rule quotient_of_denom_pos)
  have x: "\<bar>x\<bar> = of_int p / of_int q" using pq by (rule quotient_of_div)
  have p: "p > 0"
  proof (rule ccontr)
    assume "\<not> p > 0"
    then have "of_int p / (of_int q :: rat) \<le> 0"
      using q by (simp add: divide_nonpos_pos)
    with x assms show False by simp
  qed
  define a where "a = floorlog 2 (nat p)"
  define b where "b = floorlog 2 (nat q)"
  define d where "d = int a - int b"
  have ab: "2 ^ (a - 1) \<le> nat p" "nat p < 2 ^ a" "2 ^ (b - 1) \<le> nat q" "nat q < 2 ^ b"
    using floorlog_bounds [of "nat p" 2] floorlog_bounds [of "nat q" 2] p q
    by (simp_all add: a_def b_def)
  have a1: "a \<ge> 1" and b1: "b \<ge> 1"
    using p q by (simp_all add: a_def b_def floorlog_def)
  have P: "(2::rat) ^ (a - 1) \<le> of_int p" "of_int p < (2::rat) ^ a"
    and Q: "(2::rat) ^ (b - 1) \<le> of_int q" "of_int q < (2::rat) ^ b"
  proof -
    have "of_nat (2 ^ (a - 1)) \<le> (of_nat (nat p) :: rat)" using ab(1) by (rule of_nat_mono)
    then show "(2::rat) ^ (a - 1) \<le> of_int p" using p by simp
    have "(of_nat (nat p) :: rat) < of_nat (2 ^ a)" using ab(2) by (simp only: of_nat_less_iff)
    then show "of_int p < (2::rat) ^ a" using p by simp
    have "of_nat (2 ^ (b - 1)) \<le> (of_nat (nat q) :: rat)" using ab(3) by (rule of_nat_mono)
    then show "(2::rat) ^ (b - 1) \<le> of_int q" using q by simp
    have "(of_nat (nat q) :: rat) < of_nat (2 ^ b)" using ab(4) by (simp only: of_nat_less_iff)
    then show "of_int q < (2::rat) ^ b" using q by simp
  qed
  have pow_d: "(2::rat) powi d = 2 ^ a / 2 ^ b"
    by (simp add: d_def power_int_diff)
  have up: "\<bar>x\<bar> < 2 powi (d + 1)"
  proof -
    have "of_int p / of_int q < (2::rat) ^ a / 2 ^ (b - 1)"
      using P(2) Q(1) q p by (intro frac_less) simp_all
    also have "\<dots> = 2 * (2 ^ a / 2 ^ b)"
      using b1 by (cases b) simp_all
    also have "\<dots> = 2 powi (d + 1)"
      by (simp add: pow_d power_int_add)
    finally show ?thesis by (simp add: x)
  qed
  have lo: "2 powi (d - 1) \<le> \<bar>x\<bar>"
  proof -
    have "(2::rat) ^ (a - 1) / 2 ^ b \<le> of_int p / of_int q"
      using P(1) Q(2) q p by (intro frac_le) simp_all
    moreover have "(2::rat) ^ (a - 1) / 2 ^ b = 2 powi (d - 1)"
      using a1 by (cases a) (simp_all add: pow_d power_int_diff)
    ultimately show ?thesis by (simp add: x)
  qed
  have e: "expo x = (if 2 powi d \<le> \<bar>x\<bar> then d else d - 1)"
    by (simp add: expo_def pq Let_def d_def a_def b_def)
  show "2 powi (expo x) \<le> \<bar>x\<bar>"
    using lo by (simp add: e)
  show "\<bar>x\<bar> < 2 powi (expo x + 1)"
    using up by (auto simp: e not_le)
qed

lemma powi_less_cancel: "(2::rat) powi a < 2 powi b \<Longrightarrow> a < b"
proof (rule ccontr)
  assume lt: "(2::rat) powi a < 2 powi b" and "\<not> a < b"
  then have "b \<le> a" by simp
  then have "(2::rat) powi b \<le> 2 powi a" by (rule power_int_increasing) simp
  with lt show False by simp
qed

lemma expo_unique:
  assumes "2 powi e \<le> \<bar>x\<bar>" and "\<bar>x\<bar> < 2 powi (e + 1)"
  shows "expo x = e"
proof -
  have "x \<noteq> 0"
  proof
    assume "x = 0"
    with assms(1) have "(2::rat) powi e \<le> 0" by simp
    moreover have "(0::rat) < 2 powi e" by simp
    ultimately show False by simp
  qed
  note b = expo_bounds [OF this]
  have "(2::rat) powi e < 2 powi (expo x + 1)" using assms(1) b(2) by simp
  then have "e < expo x + 1" by (rule powi_less_cancel)
  moreover have "(2::rat) powi (expo x) < 2 powi (e + 1)" using assms(2) b(1) by simp
  then have "expo x < e + 1" by (rule powi_less_cancel)
  ultimately show ?thesis by simp
qed

lemma round_half_even_of_int: "round_half_even (of_int m) = m"
  by (simp add: round_half_even_def)

lemma rne_exact:
  assumes x: "x = of_int n * 2 powi k" and n: "\<bar>n\<bar> < 2 ^ 53" and k: "- 1074 \<le> k"
  shows "rne x = x"
proof (cases "x = 0")
  case True
  then show ?thesis by (simp add: rne_def)
next
  case False
  define t where "t = max (expo x) (- 1022) - 52"
  have "\<bar>x\<bar> = of_int \<bar>n\<bar> * 2 powi k"
    by (simp add: x abs_mult)
  also have "\<dots> < 2 ^ 53 * 2 powi k"
  proof (rule mult_strict_right_mono)
    have "(of_int \<bar>n\<bar> :: rat) < of_int (2 ^ 53)" using n by (simp only: of_int_less_iff)
    then show "(of_int \<bar>n\<bar> :: rat) < 2 ^ 53" by simp
    show "(0::rat) < 2 powi k" by simp
  qed
  also have "\<dots> = 2 powi (53 + k)"
    by (simp add: power_int_add)
  finally have "\<bar>x\<bar> < 2 powi (53 + k)" .
  with expo_bounds(1) [OF False] have "(2::rat) powi (expo x) < 2 powi (53 + k)" by simp
  then have "expo x < 53 + k" by (rule powi_less_cancel)
  with k have tk: "t \<le> k" by (simp add: t_def)
  define m where "m = n * 2 ^ nat (k - t)"
  have "(2::rat) powi k = 2 powi (k - t) * 2 powi t"
    by (simp flip: power_int_add)
  also have "(2::rat) powi (k - t) = 2 ^ nat (k - t)"
    using tk by (simp add: power_int_nonneg_exp)
  finally have xm: "x = of_int m * 2 powi t"
    by (simp add: x m_def)
  have "x / 2 powi t = of_int m"
    by (simp add: xm)
  then have "rne x = of_int m * 2 powi t"
    using False by (simp add: rne_def Let_def t_def [symmetric] round_half_even_of_int)
  then show ?thesis by (simp add: xm)
qed

lemma fl_exact:
  assumes "x = of_int n * 2 powi k" and "\<bar>n\<bar> < 2 ^ 53" and "- 1074 \<le> k"
    and "\<bar>x\<bar> < 2 ^ 1024"
  shows "fl x = Fin x"
  using rne_exact [OF assms(1-3)] assms(4) by (simp add: fl_def Let_def)

lemma fl_int: "\<bar>n\<bar> < 2 ^ 53 \<Longrightarrow> fl (of_int n) = Fin (of_int n)"
proof -
  assume n: "\<bar>n\<bar> < 2 ^ 53"
  have "(of_int \<bar>n\<bar> :: rat) < of_int (2 ^ 53)" using n by (simp only: of_int_less_iff)
  then have "\<bar>of_int n :: rat\<bar> < 2 ^ 53" by simp
  also have "(2::rat) ^ 53 < 2 ^ 1024" by simp
  finally have "\<bar>of_int n :: rat\<bar> < 2 ^ 1024" .
  then show ?thesis
    using fl_exact [of "of_int n" n 0] n by simp
qed

lemma fl_numeral [simp]:
  "(numeral w :: int) < 2 ^ 53 \<Longrightarrow> fl (numeral w) = Fin (numeral w)"
  using fl_int [of "numeral w"] by simp

lemma fl_neg_numeral [simp]:
  "(numeral w :: int) < 2 ^ 53 \<Longrightarrow> fl (- numeral w) = Fin (- numeral w)"
  using fl_int [of "- numeral w"] by simp

lemma fl_0 [simp]: "fl 0 = Fin 0"
  using fl_int [of 0] by simp

lemma fl_1 [simp]: "fl 1 = Fin 1"
  using fl_int [of 1] by simp

lemma round_half_even_numeral [simp]:
  "round_half_even (numeral w) = numeral w"
  "round_half_even (- numeral w) = - numeral w"
  using round_half_even_of_int [of "numeral w"] round_half_even_of_int [of "- numeral w"]
  by simp_all

lemma round_half_even_eqI:
  assumes "\<bar>x - of_int n\<bar> < 1 / 2"
  shows "round_half_even x = n"
proof -
  have "\<bar>of_int (round_half_even x) - x\<bar> \<le> 1 / 2" by (rule round_half_even_error)
  with assms have "\<bar>(of_int (round_half_even x) :: rat) - of_int n\<bar> < 1" by linarith
  then have "\<bar>(of_int (round_half_even x - n) :: rat)\<bar> < of_int 1" by simp
  then have "\<bar>round_half_even x - n\<bar> < 1"
    by (simp only: of_int_abs [symmetric] of_int_less_iff)
  then show ?thesis by linarith
qed

lemma fl_eqI:
  assumes lo: "2 powi e \<le> \<bar>x\<bar>" and hi: "\<bar>x\<bar> < 2 powi (e + 1)"
    and e: "- 1022 \<le> e" "e < 1023"
    and n: "\<bar>x / 2 powi (e - 52) - of_int n\<bar> < 1 / 2"
  shows "fl x = Fin (of_int n * 2 powi (e - 52))"
proof -
  have x0: "x \<noteq> 0"
  proof
    assume "x = 0"
    with lo have "(2::rat) powi e \<le> 0" by simp
    moreover have "(0::rat) < 2 powi e" by simp
    ultimately show False by linarith
  qed
  have ex: "expo x = e" using lo hi by (rule expo_unique)
  have r: "round_half_even (x / 2 powi (e - 52)) = n" using n by (rule round_half_even_eqI)
  have rne: "rne x = of_int n * 2 powi (e - 52)"
    using x0 e r by (simp add: rne_def ex Let_def max_def)
  have p: "(0::rat) < 2 powi (e - 52)" by simp
  have "\<bar>x / 2 powi (e - 52)\<bar> < 2 powi (e + 1) / 2 powi (e - 52)"
    using hi p by (simp add: divide_strict_right_mono)
  also have "(2::rat) powi (e + 1) / 2 powi (e - 52) = 2 powi 53"
    by (simp add: power_int_diff [symmetric])
  finally have "\<bar>x / 2 powi (e - 52)\<bar> < 2 ^ 53" by simp
  with n have "\<bar>(of_int n :: rat)\<bar> < 2 ^ 53 + 1 / 2" by linarith
  then have "\<bar>(of_int n :: rat)\<bar> < of_int (2 ^ 53 + 1)" by simp
  then have "\<bar>n\<bar> < 2 ^ 53 + 1" by (simp only: of_int_abs [symmetric] of_int_less_iff)
  then have "\<bar>n\<bar> \<le> 2 ^ 53" by simp
  then have "(of_int \<bar>n\<bar> :: rat) \<le> of_int (2 ^ 53)" by (simp only: of_int_le_iff)
  then have nb: "\<bar>(of_int n :: rat)\<bar> \<le> 2 powi 53" by simp
  have "\<bar>of_int n * 2 powi (e - 52) :: rat\<bar> = \<bar>of_int n\<bar> * 2 powi (e - 52)"
    by (simp add: abs_mult)
  also have "\<dots> \<le> 2 powi 53 * 2 powi (e - 52)"
    using nb p by (simp add: mult_right_mono)
  also have "\<dots> = 2 powi (53 + (e - 52))" by (rule power_int_add [symmetric]) simp
  also have "\<dots> = 2 powi (e + 1)" by (simp add: add.commute)
  also have "\<dots> \<le> 2 powi 1023" using e by (intro power_int_increasing) simp_all
  also have "\<dots> < (2::rat) ^ 1024" by simp
  finally have "\<bar>rne x\<bar> < 2 ^ 1024" by (simp only: rne)
  then show ?thesis by (simp add: fl_def Let_def rne)
qed

lemma fl_43844: "fl (43844 / 100) = Fin (7713118049313751 / 17592186044416)"
  using fl_eqI [of 8 "43844 / 100" 7713118049313751] by simp

lemma fl_2289: "fl (2289 / 100) = Fin (1610740554226729 / 70368744177664)"
  using fl_eqI [of 4 "2289 / 100" 6442962216906916] by simp


section \<open>Properties of the stop-loss helper\<close>

text \<open>
  At the floats nearest to 438.44 and 22.89 the product with 1.5 is exact, the difference
  is rounded and lies above 404.105, and the conservative stop is the float nearest to
  404.11.
\<close>

lemma conservative_product:
  "fmul (Fin (1610740554226729 / 70368744177664)) (Fin (3 / 2))
     = Fin (4832221662680187 / 140737488355328)"
  using fl_exact [of "4832221662680187 / 140737488355328" 4832221662680187 "- 47"]
  by simp

lemma conservative_difference:
  "fsub (Fin (7713118049313751 / 17592186044416)) (Fin (4832221662680187 / 140737488355328))
     = Fin (888636292684841 / 2199023255552)"
  using fl_eqI [of 8 "7713118049313751 / 17592186044416 - 4832221662680187 / 140737488355328"
      7109090341478728]
  by (simp add: fsub_def fneg_def)

lemma conservative_round:
  "py_round2 (Fin (888636292684841 / 2199023255552)) = fl (40411 / 100)"
  using round_half_even_eqI [of "888636292684841 / 2199023255552 * 100" 40411]
  by (simp add: py_round2_def)

lemma binary_price_value: "binary_price = Fin (7713118049313751 / 17592186044416)"
  unfolding binary_price_def by (rule fl_43844)

lemma binary_atr_value: "binary_atr = Fin (1610740554226729 / 70368744177664)"
  unfolding binary_atr_def by (rule fl_2289)

lemma conservative_stop_binary:
  "conservative_stop (calculate_stop_loss_take_profit binary_price binary_atr (Fin 2))
     = fl (40411 / 100)"
proof -
  have "conservative_stop (calculate_stop_loss_take_profit binary_price binary_atr (Fin 2))
      = py_round2 (fsub binary_price (fmul binary_atr (Fin (3 / 2))))"
    by (simp add: calculate_stop_loss_take_profit_def Let_def)
  also have "\<dots> = fl (40411 / 100)"
    by (simp only: binary_price_value binary_atr_value conservative_product
        conservative_difference conservative_round)
  finally show ?thesis .
qed


section \<open>Properties of the level finder\<close>

lemma remove_close_loop_keep_far:
  "remove_close_loop tol (acc @ [k]) ls = acc @ keep_far tol k ls"
proof (induction ls arbitrary: acc k)
  case Nil
  then show ?case by simp
next
  case (Cons l ls)
  show ?case
  proof (cases "far_enough tol (price l) (price k)")
    case True
    then show ?thesis using Cons [of "acc @ [k]" l] by simp
  next
    case False
    then show ?thesis using Cons [of acc k] by simp
  qed
qed

lemma remove_close_levels_Cons:
  "remove_close_levels tol (k # ls) = keep_far tol k ls"
  using remove_close_loop_keep_far [of tol "[]" k ls]
  by (simp add: remove_close_levels_def)

lemma set_keep_far: "set (keep_far tol k ls) \<subseteq> insert k (set ls)"
  by (induction ls arbitrary: k) (auto split: if_splits)

lemma hd_keep_far: "hd (keep_far tol k ls) = k"
  by (induction ls arbitrary: k) auto

lemma sorted_wrt_keep_far:
  "sorted_wrt P (k # ls) \<Longrightarrow> sorted_wrt P (keep_far tol k ls)"
proof (induction ls arbitrary: k)
  case Nil
  then show ?case by simp
next
  case (Cons l ls)
  have tail: "sorted_wrt P (keep_far tol l ls)"
    using Cons.prems by (intro Cons.IH) simp
  have skip: "sorted_wrt P (keep_far tol k ls)"
    using Cons.prems by (intro Cons.IH) simp
  have "\<forall>x \<in> set (keep_far tol l ls). P k x"
    using Cons.prems set_keep_far [of tol l ls] by auto
  with tail skip show ?case by simp
qed

lemma keep_far_nonempty: "keep_far tol k ls \<noteq> []"
  by (induction ls arbitrary: k) auto

lemma successively_keep_far:
  "successively (\<lambda>a b. far_enough tol (price b) (price a)) (keep_far tol k ls)"
proof (induction ls arbitrary: k)
  case Nil
  then show ?case by simp
next
  case (Cons l ls)
  show ?case
  proof (cases "far_enough tol (price l) (price k)")
    case True
    obtain y ys where eq: "keep_far tol l ls = y # ys"
      using keep_far_nonempty [of tol l ls] by (cases "keep_far tol l ls") auto
    have "y = l" using hd_keep_far [of tol l ls] eq by simp
    then show ?thesis
      using True Cons [of l] eq by simp
  next
    case False
    then show ?thesis using Cons [of k] by simp
  qed
qed

lemma sorted_wrt_remove_close_levels:
  "sorted_wrt P ls \<Longrightarrow> sorted_wrt P (remove_close_levels tol ls)"
proof (cases ls)
  case Nil
  then show ?thesis by (simp add: remove_close_levels_def)
next
  case (Cons k ks)
  assume "sorted_wrt P ls"
  then show ?thesis
    unfolding Cons remove_close_levels_Cons by (rule sorted_wrt_keep_far)
qed

lemma successively_remove_close_levels:
  "successively (\<lambda>a b. far_enough tol (price b) (price a)) (remove_close_levels tol ls)"
proof (cases ls)
  case Nil
  then show ?thesis by (simp add: remove_close_levels_def)
next
  case (Cons k ks)
  show ?thesis
    unfolding Cons remove_close_levels_Cons by (rule successively_keep_far)
qed

lemma successively_take:
  "successively P xs \<Longrightarrow> successively P (take n xs)"
  by (simp add: successively_conv_nth)

lemma levels_example_collect:
  "collect_levels levels_example (levels_example ! 0) =
     ([\<lparr> price = 100, desc = MA_support ''MA5'', level_strength = medium \<rparr>,
       \<lparr> price = 1003 / 10, desc = MA_support ''MA10'', level_strength = medium \<rparr>,
       \<lparr> price = 101, desc = MA_support ''MA20'', level_strength = medium \<rparr>,
       \<lparr> price = 90, desc = BB_lower_support, level_strength = strong \<rparr>,
       \<lparr> price = 98, desc = ATR_stop, level_strength = strong \<rparr>],
      [\<lparr> price = 110, desc = BB_upper_resistance, level_strength = strong \<rparr>,
       \<lparr> price = 106, desc = ATR_target, level_strength = medium \<rparr>])"
  by (simp add: levels_example_def neutral_snapshot_def collect_levels_def ma_levels_def
      ma_level_def bb_levels_def sar_level_def vwap_level_def extrema_levels_def
      local_highs_def local_lows_def atr_levels_def add_support_def add_resistance_def)

lemma levels_example_eval:
  "calculate_support_resistance levels_example 3 = Inr levels_example_result"
proof -
  have n: "levels_example \<noteq> []"
    by (simp add: levels_example_def)
  have i: "length levels_example - Suc 0 = 0"
    by (simp add: levels_example_def)
  have c: "close (levels_example ! 0) = 102"
    by (simp add: levels_example_def)
  have "calculate_support_resistance levels_example 3 =
      Inr \<lparr> support = take 3 (remove_close_levels (5 / 1000)
               (sort_key (\<lambda>x. - price x)
                  (fst (collect_levels levels_example (levels_example ! 0))))),
            resistance = take 3 (remove_close_levels (5 / 1000)
               (sort_key (\<lambda>x. price x)
                  (snd (collect_levels levels_example (levels_example ! 0))))),
            current_price = 102 \<rparr>"
    using n by (simp add: calculate_support_resistance_def Let_def i c)
  also have "\<dots> = Inr levels_example_result"
    unfolding levels_example_collect
    by (simp add: remove_close_levels_def far_enough_def levels_example_result_def)
  finally show ?thesis .
qed

lemma merge_examples:
  "remove_close_levels (5 / 1000) [lv 100, lv (1003 / 10)] = [lv 100]"
  "remove_close_levels (5 / 1000) [lv 100, lv 101] = [lv 100, lv 101]"
  by (simp_all add: remove_close_levels_def far_enough_def lv_def)

lemma sorted_desc_sort_key:
  "sorted_wrt (\<lambda>a b. price a \<ge> price b) (sort_key (\<lambda>x. - price x) ls)"
  using sorted_sort_key [of "\<lambda>x. - price x" ls] by (simp add: sorted_map)

lemma sorted_asc_sort_key:
  "sorted_wrt (\<lambda>a b. price a \<le> price b) (sort_key (\<lambda>x. price x) ls)"
  using sorted_sort_key [of "\<lambda>x. price x" ls] by (simp add: sorted_map)

lemma close_level_merged:
  assumes "price k \<noteq> 0" and "\<bar>price l - price k\<bar> / price k < tol"
  shows "remove_close_levels tol (k # l # ls) = remove_close_levels tol (k # ls)"
  using assms by (simp add: remove_close_levels_Cons far_enough_def)

lemma calculate_support_resistance_Inr:
  assumes "calculate_support_resistance df n = Inr res"
  shows "\<exists>sup rs. support res = take n (remove_close_levels (5 / 1000)
                       (sort_key (\<lambda>x. - price x) sup))
              \<and> resistance res = take n (remove_close_levels (5 / 1000)
                       (sort_key (\<lambda>x. price x) rs))"
  using assms
  by (auto simp: calculate_support_resistance_def Let_def split: if_splits)

text \<open>
  Claim C4. In the result of the level finder the support levels are in descending and
  the resistance levels in ascending order of price, neighbouring levels pass the
  distance test of the source, and each list has at most \<open>num_levels\<close> entries, three
  by default. A candidate whose relative distance to the level kept last is below 0.5
  percent is dropped and the kept level stays: of 100 and 100.3 only 100 is kept, 100
  and 101 are both kept.
\<close>

theorem levels_sorted_merged_truncated:
  assumes "calculate_support_resistance df n = Inr res"
  shows "sorted_wrt (\<lambda>a b. price a \<ge> price b) (support res)
    \<and> sorted_wrt (\<lambda>a b. price a \<le> price b) (resistance res)
    \<and> successively (\<lambda>a b. far_enough (5 / 1000) (price b) (price a)) (support res)
    \<and> successively (\<lambda>a b. far_enough (5 / 1000) (price b) (price a)) (resistance res)
    \<and> length (support res) \<le> n \<and> length (resistance res) \<le> n
    \<and> (\<forall>k l ls. price k \<noteq> 0 \<and> \<bar>price l - price k\<bar> / price k < 5 / 1000 \<longrightarrow>
          remove_close_levels (5 / 1000) (k # l # ls)
            = remove_close_levels (5 / 1000) (k # ls))
    \<and> (\<forall>k ls. hd (remove_close_levels (5 / 1000) (k # ls)) = k)
    \<and> remove_close_levels (5 / 1000) [lv 100, lv (1003 / 10)] = [lv 100]
    \<and> remove_close_levels (5 / 1000) [lv 100, lv 101] = [lv 100, lv 101]
    \<and> calculate_support_resistance_default df = calculate_support_resistance df 3"
proof -
  obtain sup rs where
    s: "support res = take n (remove_close_levels (5 / 1000)
          (sort_key (\<lambda>x. - price x) sup))"
    and r: "resistance res = take n (remove_close_levels (5 / 1000)
          (sort_key (\<lambda>x. price x) rs))"
    using calculate_support_resistance_Inr [OF assms] by blast
  have 1: "sorted_wrt (\<lambda>a b. price a \<ge> price b) (support res)"
    unfolding s
    by (intro sorted_wrt_take sorted_wrt_remove_close_levels sorted_desc_sort_key)
  have 2: "sorted_wrt (\<lambda>a b. price a \<le> price b) (resistance res)"
    unfolding r
    by (intro sorted_wrt_take sorted_wrt_remove_close_levels sorted_asc_sort_key)
  have 3: "successively (\<lambda>a b. far_enough (5 / 1000) (price b) (price a)) (support res)"
    unfolding s by (intro successively_take successively_remove_close_levels)
  have 4: "successively (\<lambda>a b. far_enough (5 / 1000) (price b) (price a)) (resistance res)"
    unfolding r by (intro successively_take successively_remove_close_levels)
  have 5: "length (support res) \<le> n" "length (resistance res) \<le> n"
    by (simp_all add: s r)
  have 6: "\<forall>k l ls. price k \<noteq> 0 \<and> \<bar>price l - price k\<bar> / price k < 5 / 1000 \<longrightarrow>
          remove_close_levels (5 / 1000) (k # l # ls)
            = remove_close_levels (5 / 1000) (k # ls)"
    using close_level_merged by blast
  have 7: "\<forall>k ls. hd (remove_close_levels (5 / 1000) (k # ls)) = k"
    by (simp add: remove_close_levels_Cons hd_keep_far)
  have 8: "calculate_support_resistance_default df = calculate_support_resistance df 3"
    by (simp add: calculate_support_resistance_default_def)
  show ?thesis
    using 1 2 3 4 5 6 7 8 merge_examples by blast
qed

theorem levels_sorted_merged_truncated_witness:
  "calculate_support_resistance levels_example 3 = Inr levels_example_result
   \<and> map price (support levels_example_result) = [101, 1003 / 10, 98]
   \<and> map price (resistance levels_example_result) = [106, 110]
   \<and> sorted_wrt (\<lambda>a b. price a \<ge> price b) (support levels_example_result)
   \<and> sorted_wrt (\<lambda>a b. price a \<le> price b) (resistance levels_example_result)
   \<and> length (support levels_example_result) \<le> 3
   \<and> length (resistance levels_example_result) \<le> 3
   \<and> price (lv 100) \<noteq> 0
   \<and> \<bar>price (lv (1003 / 10)) - price (lv 100)\<bar> / price (lv 100) < 5 / 1000
   \<and> remove_close_levels (5 / 1000) [lv 100, lv (1003 / 10)]
       = remove_close_levels (5 / 1000) [lv 100]"
  using levels_example_eval levels_sorted_merged_truncated [OF levels_example_eval]
  by (simp add: levels_example_result_def lv_def remove_close_levels_def far_enough_def)

section \<open>Properties of the VWAP block\<close>

lemma length_cumsum: "length (cumsum step s vs) = length vs"
  by (induction vs arbitrary: s) (auto simp: Let_def split: prod.splits)

lemma length_group_cumsum: "length (group_cumsum step init acc xs) = length xs"
  by (induction xs arbitrary: acc) (auto simp: Let_def split: prod.splits)

lemma group_cumsum_nth:
  "i < length xs \<Longrightarrow>
     group_cumsum step init acc xs ! i =
       last (cumsum step (base init acc (fst (xs ! i)))
          (map snd (filter (\<lambda>p. fst p = fst (xs ! i)) (take (Suc i) xs))))"
proof (induction xs arbitrary: acc i)
  case Nil
  then show ?case by simp
next
  case (Cons x xs)
  obtain k v where x: "x = (k, v)" by (cases x)
  obtain s out where st: "step (base init acc k) v = (s, out)"
    by (cases "step (base init acc k) v")
  show ?case
  proof (cases i)
    case 0
    then show ?thesis using st by (simp add: x Let_def base_def)
  next
    case (Suc j)
    then have j: "j < length xs" using Cons.prems by simp
    let ?k' = "fst (xs ! j)"
    let ?vs = "map snd (filter (\<lambda>p. fst p = ?k') (take (Suc j) xs))"
    have ne: "?vs \<noteq> []"
    proof -
      have "xs ! j \<in> set (take (Suc j) xs)"
        using j by (simp add: take_Suc_conv_app_nth)
      then have "xs ! j \<in> set (filter (\<lambda>p. fst p = ?k') (take (Suc j) xs))" by simp
      then show ?thesis by (metis empty_iff list.set(1) map_is_Nil_conv)
    qed
    have "group_cumsum step init acc (x # xs) ! i = group_cumsum step init (acc(k \<mapsto> s)) xs ! j"
      using st by (simp add: x Suc Let_def base_def)
    also have "\<dots> = last (cumsum step (base init (acc(k \<mapsto> s)) ?k') ?vs)"
      by (rule Cons.IH [OF j])
    also have "\<dots> = last (cumsum step (base init acc ?k')
          (map snd (filter (\<lambda>p. fst p = ?k') (take (Suc (Suc j)) (x # xs)))))"
    proof (cases "k = ?k'")
      case True
      have "cumsum step s ?vs \<noteq> []"
        using ne length_cumsum [of step s ?vs] by (metis length_0_conv)
      then show ?thesis using True st by (simp add: x base_def)
    next
      case False
      then show ?thesis by (simp add: x base_def)
    qed
    finally show ?thesis by (simp add: Suc)
  qed
qed

lemma zip_map_same: "zip (map f xs) (map g xs) = map (\<lambda>x. (f x, g x)) xs"
  by (induction xs) auto

lemma keyed_cumsum_nth:
  assumes "i < length df"
  shows "group_cumsum step init Map.empty (zip (map key df) (map val df)) ! i =
     last (cumsum step init (map val (filter (\<lambda>r. key r = key (df ! i)) (take (Suc i) df))))"
proof -
  have "group_cumsum step init Map.empty (map (\<lambda>r. (key r, val r)) df) ! i =
      last (cumsum step (base init Map.empty (key (df ! i)))
        (map snd (filter (\<lambda>p. fst p = key (df ! i))
            (take (Suc i) (map (\<lambda>r. (key r, val r)) df)))))"
    using group_cumsum_nth [of i "map (\<lambda>r. (key r, val r)) df" step init Map.empty] assms
    by simp
  then show ?thesis
    by (simp add: zip_map_same base_def take_map filter_map comp_def)
qed

lemma cumsum_int64_Cons:
  "cumsum int64_step a (w # ws) = (w + a) # cumsum int64_step (w + a) ws"
  by (simp add: int64_step_def Let_def)

lemma cumsum_int64_last:
  "ws \<noteq> [] \<Longrightarrow> last (cumsum int64_step a ws) = a + sum_list ws"
proof (induction ws arbitrary: a)
  case Nil
  then show ?case by simp
next
  case (Cons w ws)
  show ?case
  proof (cases "ws = []")
    case True
    then show ?thesis by (simp add: cumsum_int64_Cons del: cumsum.simps(2))
  next
    case False
    then have "cumsum int64_step (w + a) ws \<noteq> []"
      using length_cumsum [of int64_step "w + a" ws] by (metis length_0_conv)
    then show ?thesis
      using Cons.IH [OF False, of "w + a"]
      by (simp add: cumsum_int64_Cons add.assoc add.commute del: cumsum.simps(2))
  qed
qed

lemma same_day_so_far_nonempty: "i < length df \<Longrightarrow> same_day_so_far df i \<noteq> []"
proof -
  assume i: "i < length df"
  then have "df ! i \<in> set (take (Suc i) df)"
    by (simp add: take_Suc_conv_app_nth)
  then have "df ! i \<in> set (same_day_so_far df i)"
    by (simp add: same_day_so_far_def)
  then show ?thesis by auto
qed

lemma sint_sum_list:
  fixes ws :: "64 word list"
  assumes "- (2 ^ 63) \<le> sum_list (map sint ws)" "sum_list (map sint ws) < 2 ^ 63"
  shows "sint (sum_list ws) = sum_list (map sint ws)"
proof -
  have "sum_list ws = (word_of_int (sum_list (map sint ws)) :: 64 word)"
    by (induction ws) simp_all
  then show ?thesis
    using assms by (simp add: sint_sbintrunc' signed_take_bit_int_eq_self)
qed

lemma length_vwap_column: "length (vwap_column step init df) = length df"
  by (simp add: vwap_column_def Let_def length_group_cumsum)

lemma vwap_column_nth:
  assumes "i < length df"
  shows "vwap_column step init df ! i =
     fdiv (last (cumsum step init (map tp_volume (same_day_so_far df i))))
          (of_int64 (sum_list (map bar_volume (same_day_so_far df i))))"
proof -
  have "vwap_column step init df ! i =
      fdiv
        (group_cumsum step init Map.empty
           (zip (map (\<lambda>r. date_only (bar_date r)) df) (map tp_volume df)) ! i)
        (of_int64 (group_cumsum int64_step 0 Map.empty
           (zip (map (\<lambda>r. date_only (bar_date r)) df) (map bar_volume df)) ! i))"
    using assms by (simp add: vwap_column_def Let_def length_group_cumsum)
  moreover have "map bar_volume (same_day_so_far df i) \<noteq> []"
    using same_day_so_far_nonempty [OF assms] by simp
  ultimately show ?thesis
    by (simp add: keyed_cumsum_nth [OF assms] same_day_so_far_def [symmetric]
        cumsum_int64_last)
qed


lemma fl_49_2 [simp]: "fl (49 / 2) = Fin (49 / 2)"
  using fl_exact [of "49 / 2" 49 "- 1"] by simp

lemma fl_69_4 [simp]: "fl (69 / 4) = Fin (69 / 4)"
  using fl_exact [of "69 / 4" 69 "- 2"] by simp

lemma of_int64_small [simp]:
  "of_int64 400 = Fin 400" "of_int64 100 = Fin 100" "of_int64 300 = Fin 300"
  "of_int64 500 = Fin 500" "of_int64 800 = Fin 800"
  by (simp_all add: of_int64_def)

lemma tp_volume_example:
  "map tp_volume vwap_example = [Fin 4000, Fin 2000, Fin 7800]"
  by (simp add: vwap_example_def tp_volume_def typical_price_def)

lemma vwap_example_kahan:
  "vwap_column kahan_step (Fin 0, Fin 0) vwap_example = [Fin 10, Fin 20, Fin (49 / 2)]"
  by (simp add: vwap_column_def Let_def tp_volume_def typical_price_def
      vwap_example_def intraday_def date_only_def kahan_step_def int64_step_def
      fsub_def fneg_def)

lemma vwap_example_plain:
  "vwap_column plain_step (Fin 0) vwap_example = [Fin 10, Fin 20, Fin (49 / 2)]"
  by (simp add: vwap_column_def Let_def tp_volume_def typical_price_def
      vwap_example_def intraday_def date_only_def plain_step_def int64_step_def)

lemma running_example_kahan:
  "running_column kahan_step (Fin 0, Fin 0) vwap_example = [Fin 10, Fin 12, Fin (69 / 4)]"
  by (simp add: running_column_def Let_def tp_volume_def typical_price_def
      vwap_example_def kahan_step_def int64_step_def fsub_def fneg_def)


lemma fl_big [simp]:
  "fl 4611686018427387904 = Fin 4611686018427387904"
  "fl 46116860184273879040 = Fin 46116860184273879040"
  "fl 92233720368547758080 = Fin 92233720368547758080"
  "fl 138350580552821637120 = Fin 138350580552821637120"
  "fl (- 4611686018427387904) = Fin (- 4611686018427387904)"
  "fl (- 9223372036854775808) = Fin (- 9223372036854775808)"
  using fl_exact [of 4611686018427387904 1 62] fl_exact [of 46116860184273879040 5 63]
    fl_exact [of 92233720368547758080 5 64] fl_exact [of 138350580552821637120 15 63]
    fl_exact [of "- 4611686018427387904" "- 1" 62]
    fl_exact [of "- 9223372036854775808" "- 1" 63]
  by simp_all

lemma of_int64_big [simp]:
  "of_int64 4611686018427387904 = Fin 4611686018427387904"
  "of_int64 9223372036854775808 = Fin (- 9223372036854775808)"
  "of_int64 13835058055282163712 = Fin (- 4611686018427387904)"
  by (simp_all add: of_int64_def)

lemma heavy_day_kahan:
  "vwap_column kahan_step (Fin 0, Fin 0) heavy_day = [Fin 10, Fin (- 10), Fin (- 30)]"
  by (simp add: vwap_column_def Let_def tp_volume_def typical_price_def
      heavy_day_def heavy_bar_def intraday_def date_only_def kahan_step_def int64_step_def
      fsub_def fneg_def)

lemma heavy_day_plain:
  "vwap_column plain_step (Fin 0) heavy_day = [Fin 10, Fin (- 10), Fin (- 30)]"
  by (simp add: vwap_column_def Let_def tp_volume_def typical_price_def
      heavy_day_def heavy_bar_def intraday_def date_only_def plain_step_def int64_step_def)

lemma heavy_day_ratio: "map (within_day_ratio heavy_day) [0, 1, 2] = [10, 10, 10]"
  by (simp add: within_day_ratio_def day_volume_def same_day_so_far_def heavy_day_def
      heavy_bar_def intraday_def date_only_def exact_def)

text \<open>
  Claim C8 as stated fails: on three bars of one day, each with high, low and close 10
  and volume \<open>2 ^ 62\<close>, the within-day ratio is 10 at every bar, but the cumulative
  volume wraps around at the second bar and the VWAP column is 10, -10 and -30, with
  either float accumulator.
\<close>

theorem vwap_wraps_at_int64:
  "vwap_column kahan_step (Fin 0, Fin 0) heavy_day = [Fin 10, Fin (- 10), Fin (- 30)]
   \<and> vwap_column plain_step (Fin 0) heavy_day = [Fin 10, Fin (- 10), Fin (- 30)]
   \<and> map (within_day_ratio heavy_day) [0, 1, 2] = [10, 10, 10]"
  using heavy_day_kahan heavy_day_plain heavy_day_ratio by simp

text \<open>
  Claim C8. The VWAP column has one entry per bar. The entry of a bar is the floating-point
  quotient of two sums over the bars of the same calendar day up to that bar, so both sums
  start again on each day: the running float64 sum of typical price times volume, and the
  int64 sum of the volumes, which wraps around. Where the sum of these volumes is in the
  range of int64, the divisor is that sum. On the two-day example the column is 10, 20
  and 24.5, where running totals over the whole series give 10, 12 and 17.25.
\<close>

theorem vwap_is_within_day_ratio:
  "length (vwap_column step init df) = length df
   \<and> (\<forall>i < length df.
        vwap_column step init df ! i =
          fdiv (last (cumsum step init (map tp_volume (same_day_so_far df i))))
               (of_int64 (sum_list (map bar_volume (same_day_so_far df i))))
        \<and> (day_volume_fits df i \<longrightarrow>
             vwap_column step init df ! i =
               fdiv (last (cumsum step init (map tp_volume (same_day_so_far df i))))
                    (fl (of_int (day_volume df i)))))"
proof -
  have "sint (sum_list (map bar_volume (same_day_so_far df i))) = day_volume df i"
    if "day_volume_fits df i" for i
    using that sint_sum_list [of "map bar_volume (same_day_so_far df i)"]
    by (simp add: day_volume_fits_def day_volume_def comp_def)
  then show ?thesis
    by (simp add: length_vwap_column vwap_column_nth of_int64_def)
qed

lemma vwap_example_day:
  "same_day_so_far vwap_example 2 = [vwap_example ! 1, vwap_example ! 2]"
  by (simp add: same_day_so_far_def vwap_example_def intraday_def date_only_def)

lemma vwap_example_volume: "day_volume vwap_example 2 = 400"
  by (simp add: day_volume_def vwap_example_day) (simp add: vwap_example_def)

lemma vwap_example_ratio: "within_day_ratio vwap_example 2 = 49 / 2"
  by (simp add: within_day_ratio_def vwap_example_volume vwap_example_day)
     (simp add: vwap_example_def exact_def)

theorem vwap_is_within_day_ratio_witness:
  "2 < length vwap_example
   \<and> day_volume_fits vwap_example 2
   \<and> day_volume vwap_example 2 = 400
   \<and> vwap_column kahan_step (Fin 0, Fin 0) vwap_example ! 2 =
       fdiv (last (cumsum kahan_step (Fin 0, Fin 0)
                     (map tp_volume (same_day_so_far vwap_example 2))))
            (fl (of_int (day_volume vwap_example 2)))
   \<and> vwap_column kahan_step (Fin 0, Fin 0) vwap_example = [Fin 10, Fin 20, Fin (49 / 2)]
   \<and> vwap_column plain_step (Fin 0) vwap_example = [Fin 10, Fin 20, Fin (49 / 2)]
   \<and> within_day_ratio vwap_example 2 = 49 / 2
   \<and> running_column kahan_step (Fin 0, Fin 0) vwap_example = [Fin 10, Fin 12, Fin (69 / 4)]"
proof -
  have l: "2 < length vwap_example" by (simp add: vwap_example_def)
  have f: "day_volume_fits vwap_example 2"
    by (simp add: day_volume_fits_def vwap_example_volume)
  show ?thesis
    using l f vwap_is_within_day_ratio [of kahan_step "(Fin 0, Fin 0)" vwap_example]
      vwap_example_volume vwap_example_kahan vwap_example_plain vwap_example_ratio
      running_example_kahan
    by blast
qed


section \<open>Properties of the cache\<close>

subsection \<open>\<open>save_stock_data\<close>\<close>

lemma to_sql_append_conflict:
  assumes "\<exists>r \<in> set rs. \<exists>x \<in> set tbl. sp_symbol x = sp_symbol r \<and> sp_date x = sp_date r"
  shows "to_sql_append tbl rs = Inl IntegrityError"
  using assms
proof (induction rs arbitrary: tbl)
  case Nil
  then show ?case by simp
next
  case (Cons r rs)
  show ?case
  proof (cases "\<exists>x \<in> set tbl. sp_symbol x = sp_symbol r \<and> sp_date x = sp_date r")
    case True
    then show ?thesis by simp
  next
    case False
    with Cons.prems have
      "\<exists>r' \<in> set rs. \<exists>x \<in> set (tbl @ [r]). sp_symbol x = sp_symbol r' \<and> sp_date x = sp_date r'"
      by auto
    from Cons.IH [OF this] False show ?thesis by simp
  qed
qed

lemma save_stock_data_conflict:
  assumes "\<exists>r \<in> set (df_rows f). \<exists>x \<in> set (stock_prices db).
             sp_symbol x = symbol \<and> sp_date x = pf_date r"
  shows "save_stock_data db symbol (Some f) = db"
proof -
  have "\<exists>r \<in> set (map (price_row_of symbol) (df_rows f)). \<exists>x \<in> set (stock_prices db).
          sp_symbol x = sp_symbol r \<and> sp_date x = sp_date r"
    using assms by (auto simp: price_row_of_def)
  from to_sql_append_conflict [OF this] show ?thesis
    by (simp add: save_stock_data_def)
qed

text \<open>
  Claim C2, at the failing input. The table holds the bar of 2024-01-02 with close 100.
  Saving a frame with the same date and close 101 leaves the database as it was, and so
  does a frame that has a new date besides: the stored close stays 100, the row is not
  overwritten and the new date is not stored.
\<close>

theorem save_stock_data_keeps_old_row:
  "save_stock_data price_db ''2330'' (Some (price_frame [refreshed_bar])) = price_db
   \<and> save_stock_data price_db ''2330'' (Some (price_frame [next_bar, refreshed_bar])) = price_db
   \<and> map sp_close (stock_prices price_db) = [Some 100]
   \<and> pf_close refreshed_bar = Some 101"
  by (simp add: save_stock_data_def price_frame_def df_empty_def price_columns_def
      price_db_def stored_price_def refreshed_bar_def next_bar_def price_row_of_def)

subsection \<open>\<open>save_institutional_data\<close>\<close>

lemma zpad_2: "zpad 2 n = [digit (n div 10), digit n]"
proof -
  have "(2::nat) = Suc (Suc 0)" by simp
  then show ?thesis by (simp only: zpad.simps append_Nil append_Cons)
qed

lemma zpad_4:
  "zpad 4 n = [digit (n div 10 div 10 div 10), digit (n div 10 div 10), digit (n div 10), digit n]"
proof -
  have "(4::nat) = Suc (Suc (Suc (Suc 0)))" by simp
  then show ?thesis by (simp only: zpad.simps append_Nil append_Cons)
qed

lemma zpad_6:
  "zpad 6 n = [digit (n div 10 div 10 div 10 div 10 div 10), digit (n div 10 div 10 div 10 div 10),
     digit (n div 10 div 10 div 10), digit (n div 10 div 10), digit (n div 10), digit n]"
proof -
  have "(6::nat) = Suc (Suc (Suc (Suc (Suc (Suc 0)))))" by simp
  then show ?thesis by (simp only: zpad.simps append_Nil append_Cons)
qed

lemma strftime_day_of_2: "strftime_ymd (day_of 2) = ''2024-01-02''"
  by (simp add: strftime_ymd_def day_of_def zpad_2 zpad_4 digit_def)

lemma insert_or_replace_others:
  "it_symbol r = s \<Longrightarrow>
     filter (\<lambda>x. it_symbol x \<noteq> s) (insert_or_replace tbl r) =
       filter (\<lambda>x. it_symbol x \<noteq> s) tbl"
  by (induction tbl) (auto simp: insert_or_replace_def)

lemma insert_or_replace_same:
  "it_symbol r = s \<Longrightarrow>
     filter (\<lambda>x. it_symbol x = s) (insert_or_replace tbl r) =
       filter (\<lambda>x. it_date x \<noteq> it_date r) (filter (\<lambda>x. it_symbol x = s) tbl) @ [r]"
  by (induction tbl) (auto simp: insert_or_replace_def)

lemma foldl_insert_or_replace_others:
  "filter (\<lambda>x. it_symbol x \<noteq> s) (foldl insert_or_replace tbl (map (inst_row_of s) bs)) =
     filter (\<lambda>x. it_symbol x \<noteq> s) tbl"
proof (induction bs rule: rev_induct)
  case Nil
  then show ?case by simp
next
  case (snoc b bs)
  have "it_symbol (inst_row_of s b) = s" by (simp add: inst_row_of_def)
  then show ?case using snoc by (simp add: insert_or_replace_others)
qed

lemma foldl_insert_or_replace_same:
  "set (filter (\<lambda>x. it_symbol x = s) (foldl insert_or_replace tbl (map (inst_row_of s) bs)))
     \<subseteq> set (filter (\<lambda>x. it_symbol x = s) tbl) \<union> inst_row_of s ` set bs"
proof (induction bs rule: rev_induct)
  case Nil
  then show ?case by simp
next
  case (snoc b bs)
  have "it_symbol (inst_row_of s b) = s" by (simp add: inst_row_of_def)
  from insert_or_replace_same [OF this] snoc show ?case by auto
qed

lemma foldl_insert_or_replace_dates:
  "it_date ` set (filter (\<lambda>x. it_symbol x = s)
       (foldl insert_or_replace tbl (map (inst_row_of s) bs)))
     = it_date ` set (filter (\<lambda>x. it_symbol x = s) tbl)
         \<union> (\<lambda>b. strftime_ymd (if_date b)) ` set bs"
proof (induction bs rule: rev_induct)
  case Nil
  then show ?case by simp
next
  case (snoc b bs)
  have s: "it_symbol (inst_row_of s b) = s"
    and d: "it_date (inst_row_of s b) = strftime_ymd (if_date b)"
    by (simp_all add: inst_row_of_def)
  define T where "T = foldl insert_or_replace tbl (map (inst_row_of s) bs)"
  have "it_date ` set (filter (\<lambda>x. it_symbol x = s) (insert_or_replace T (inst_row_of s b)))
      = it_date ` set (filter (\<lambda>x. it_symbol x = s) T) \<union> {strftime_ymd (if_date b)}"
    unfolding insert_or_replace_same [OF s] using d by auto
  then show ?case using snoc by (simp add: T_def Un_assoc)
qed

lemma foldl_insert_or_replace_distinct:
  assumes "distinct (map it_date (filter (\<lambda>x. it_symbol x = s) tbl))"
  shows "distinct (map it_date (filter (\<lambda>x. it_symbol x = s)
       (foldl insert_or_replace tbl (map (inst_row_of s) bs))))"
proof (induction bs rule: rev_induct)
  case Nil
  then show ?case using assms by simp
next
  case (snoc b bs)
  have s: "it_symbol (inst_row_of s b) = s" by (simp add: inst_row_of_def)
  define T where "T = foldl insert_or_replace tbl (map (inst_row_of s) bs)"
  have "distinct (map it_date (filter (\<lambda>x. it_symbol x = s) T))"
    using snoc by (simp add: T_def)
  then have "distinct (map it_date
      (filter (\<lambda>x. it_date x \<noteq> it_date (inst_row_of s b)) (filter (\<lambda>x. it_symbol x = s) T)))"
    by (rule distinct_map_filter)
  then have "distinct (map it_date
      (filter (\<lambda>x. it_symbol x = s) (insert_or_replace T (inst_row_of s b))))"
    unfolding insert_or_replace_same [OF s] by auto
  then show ?case by (simp add: T_def)
qed

lemma save_institutional_data_True:
  assumes "save_institutional_data db symbol df = (db', True)"
  shows "\<exists>f. df = Some f \<and>
     db' = db\<lparr>institutional_trades :=
              foldl insert_or_replace
                (filter (\<lambda>x. it_symbol x \<noteq> symbol) (institutional_trades db))
                (map (inst_row_of symbol) (df_rows f))\<rparr>"
  using assms
  by (auto simp: save_institutional_data_def Let_def split: option.splits if_splits)

lemma foldl_insert_or_replace_last:
  assumes "filter (\<lambda>x. it_symbol x = s) tbl = []"
    and "x \<in> set (filter (\<lambda>x. it_symbol x = s)
            (foldl insert_or_replace tbl (map (inst_row_of s) bs)))"
  shows "x = inst_row_of s (last (filter (\<lambda>b. strftime_ymd (if_date b) = it_date x) bs))"
  using assms(2)
proof (induction bs arbitrary: x rule: rev_induct)
  case Nil
  then show ?case using assms(1) by simp
next
  case (snoc b bs)
  have s: "it_symbol (inst_row_of s b) = s"
    and d: "it_date (inst_row_of s b) = strftime_ymd (if_date b)"
    by (simp_all add: inst_row_of_def)
  define T where "T = foldl insert_or_replace tbl (map (inst_row_of s) bs)"
  have "foldl insert_or_replace tbl (map (inst_row_of s) (bs @ [b]))
      = insert_or_replace T (inst_row_of s b)"
    by (simp add: T_def)
  with snoc.prems have "x \<in> set (filter (\<lambda>x. it_symbol x = s)
      (insert_or_replace T (inst_row_of s b)))"
    by (simp only:)
  then have mem: "x \<in> set (filter (\<lambda>x. it_date x \<noteq> it_date (inst_row_of s b))
                 (filter (\<lambda>x. it_symbol x = s) T) @ [inst_row_of s b])"
    by (simp only: insert_or_replace_same [OF s])
  show ?case
  proof (cases "x = inst_row_of s b")
    case True
    then show ?thesis by (simp add: d)
  next
    case False
    with mem have old: "x \<in> set (filter (\<lambda>x. it_symbol x = s) T)"
      and ne: "it_date x \<noteq> strftime_ymd (if_date b)"
      by (auto simp: d)
    from snoc.IH [OF old [unfolded T_def]] ne show ?thesis by simp
  qed
qed

lemma inst_batch_twice_eval:
  "save_institutional_data inst_db ''2330'' (Some inst_batch_twice)
     = (inst_db\<lparr>institutional_trades := [other_inst, newer_inst]\<rparr>, True)"
  by (simp add: save_institutional_data_def inst_db_def inst_batch_twice_def
      inst_batch_row_def inst_batch_row2_def df_empty_def
      required_columns_def stored_inst_def other_inst_def new_inst_def newer_inst_def
      inst_row_of_def insert_or_replace_def strftime_day_of_2)

lemma inst_batch_eval:
  "save_institutional_data inst_db ''2330'' (Some inst_batch)
     = (inst_db\<lparr>institutional_trades := [other_inst, new_inst]\<rparr>, True)"
  by (simp add: save_institutional_data_def inst_db_def inst_batch_def inst_batch_row_def df_empty_def
      required_columns_def stored_inst_def other_inst_def new_inst_def inst_row_of_def
      insert_or_replace_def strftime_day_of_2)

text \<open>
  Claim C7 as stated fails: the stored row of symbol 2330 for 2024-01-01, a date outside
  the batch, is gone after the batch for 2024-01-02 is saved.
\<close>

theorem institutional_other_dates_deleted:
  "institutional_trades inst_db = [stored_inst, other_inst]
   \<and> it_symbol stored_inst = ''2330'' \<and> it_date stored_inst = ''2024-01-01''
   \<and> df_rows inst_batch = [inst_batch_row]
   \<and> strftime_ymd (if_date inst_batch_row) = ''2024-01-02''
   \<and> save_institutional_data inst_db ''2330'' (Some inst_batch)
       = (inst_db\<lparr>institutional_trades := [other_inst, new_inst]\<rparr>, True)
   \<and> stored_inst \<notin> set [other_inst, new_inst]"
  using inst_batch_eval
  by (simp add: inst_db_def inst_batch_def inst_batch_row_def stored_inst_def other_inst_def
      new_inst_def strftime_day_of_2)

text \<open>
  Claim C7 as amended. A successful call deletes the stored rows of the symbol and then
  upserts the batch keyed by (symbol, date): the rows of every other symbol are unchanged
  and in their order; the rows stored for the symbol have exactly the dates of the batch,
  one row for each date, and the row stored for a date is the last row of the batch with
  that date; the other tables are unchanged.
\<close>

theorem save_institutional_data_replaces_symbol:
  assumes "save_institutional_data db symbol df = (db', True)"
  shows "filter (\<lambda>x. it_symbol x \<noteq> symbol) (institutional_trades db')
           = filter (\<lambda>x. it_symbol x \<noteq> symbol) (institutional_trades db)
    \<and> (\<exists>f. df = Some f
          \<and> it_date ` set (filter (\<lambda>x. it_symbol x = symbol) (institutional_trades db'))
               = (\<lambda>b. strftime_ymd (if_date b)) ` set (df_rows f)
          \<and> set (filter (\<lambda>x. it_symbol x = symbol) (institutional_trades db'))
               \<subseteq> inst_row_of symbol ` set (df_rows f)
          \<and> (\<forall>x \<in> set (filter (\<lambda>x. it_symbol x = symbol) (institutional_trades db')).
                x = inst_row_of symbol
                      (last (filter (\<lambda>b. strftime_ymd (if_date b) = it_date x) (df_rows f)))))
    \<and> distinct (map it_date (filter (\<lambda>x. it_symbol x = symbol) (institutional_trades db')))
    \<and> stock_prices db' = stock_prices db \<and> news_cache db' = news_cache db"
proof -
  define deleted where
    "deleted = filter (\<lambda>x. it_symbol x \<noteq> symbol) (institutional_trades db)"
  obtain f where f: "df = Some f"
    and db': "db' = db\<lparr>institutional_trades :=
        foldl insert_or_replace deleted (map (inst_row_of symbol) (df_rows f))\<rparr>"
    using save_institutional_data_True [OF assms] unfolding deleted_def by blast
  have none: "filter (\<lambda>x. it_symbol x = symbol) deleted = []"
    by (simp add: deleted_def)
  have 1: "filter (\<lambda>x. it_symbol x \<noteq> symbol) (institutional_trades db')
           = filter (\<lambda>x. it_symbol x \<noteq> symbol) (institutional_trades db)"
    by (simp add: db' foldl_insert_or_replace_others deleted_def)
  have 2: "it_date ` set (filter (\<lambda>x. it_symbol x = symbol) (institutional_trades db'))
               = (\<lambda>b. strftime_ymd (if_date b)) ` set (df_rows f)"
    using foldl_insert_or_replace_dates [of symbol deleted "df_rows f"]
    by (simp add: db' none)
  have 3: "set (filter (\<lambda>x. it_symbol x = symbol) (institutional_trades db'))
               \<subseteq> inst_row_of symbol ` set (df_rows f)"
    using foldl_insert_or_replace_same [of symbol deleted "df_rows f"]
    by (simp add: db' none)
  have 6: "\<forall>x \<in> set (filter (\<lambda>x. it_symbol x = symbol) (institutional_trades db')).
      x = inst_row_of symbol
            (last (filter (\<lambda>b. strftime_ymd (if_date b) = it_date x) (df_rows f)))"
    using foldl_insert_or_replace_last [OF none, of _ "df_rows f"]
    by (simp add: db')
  have 4: "distinct (map it_date
      (filter (\<lambda>x. it_symbol x = symbol) (institutional_trades db')))"
    using foldl_insert_or_replace_distinct [of symbol deleted "df_rows f"]
    by (simp add: db' none)
  have 5: "stock_prices db' = stock_prices db" "news_cache db' = news_cache db"
    by (simp_all add: db')
  show ?thesis using f 1 2 3 4 5 6 by blast
qed

theorem save_institutional_data_replaces_symbol_witness:
  "save_institutional_data inst_db ''2330'' (Some inst_batch_twice)
     = (inst_db\<lparr>institutional_trades := [other_inst, newer_inst]\<rparr>, True)
   \<and> filter (\<lambda>x. it_symbol x \<noteq> ''2330'') [other_inst, newer_inst]
       = filter (\<lambda>x. it_symbol x \<noteq> ''2330'') (institutional_trades inst_db)
   \<and> distinct (map it_date (filter (\<lambda>x. it_symbol x = ''2330'') [other_inst, newer_inst]))
   \<and> newer_inst = inst_row_of ''2330'' (last (df_rows inst_batch_twice))
   \<and> foreign_investor newer_inst = Some 7"
proof -
  have "newer_inst = inst_row_of ''2330'' (last (df_rows inst_batch_twice))"
    by (simp add: newer_inst_def new_inst_def inst_row_of_def inst_batch_twice_def
        inst_batch_row2_def inst_batch_row_def strftime_day_of_2)
  moreover have "foreign_investor newer_inst = Some 7"
    by (simp add: newer_inst_def)
  ultimately show ?thesis
    using inst_batch_twice_eval
      save_institutional_data_replaces_symbol [OF inst_batch_twice_eval]
    by simp
qed

subsection \<open>\<open>save_news_cache\<close> and \<open>get_news_cache\<close>\<close>

lemma add_hours_t: "add_hours t_insert 24 = t_insert\<lparr>day := 11\<rparr>"
  by (simp add: add_hours_def t_insert_def next_day_def days_in_month_def is_leap_def)

lemma iso_expiry: "isoformat (t_insert\<lparr>day := 11\<rparr>) = ''2024-03-11T09:00:00.250000''"
  by (simp add: isoformat_def strftime_ymd_def hms_def t_insert_def zpad_2 zpad_4 zpad_6
      digit_def)

lemma created_text: "sqlite_datetime t_insert = ''2024-03-10 09:00:00''"
  by (simp add: sqlite_datetime_def strftime_ymd_def hms_def t_insert_def zpad_2 zpad_4
      digit_def)

lemma news_db_rows:
  "news_cache news_db =
     [\<lparr> nc_symbol = ''2330'', nc_content = ''news'', nc_source = ''perplexity'',
        nc_created_at = ''2024-03-10 09:00:00'',
        nc_expires_at = ''2024-03-11T09:00:00.250000'' \<rparr>]"
  by (simp add: news_db_def save_news_cache_default_def save_news_cache_def add_hours_t
      iso_expiry created_text empty_db_def)

lemma query_texts:
  "sqlite_datetime t_before = ''2024-03-11 08:59:00''"
  "sqlite_datetime t_after = ''2024-03-11 09:01:00''"
  "sqlite_datetime t_late = ''2024-03-11 23:59:59''"
  "sqlite_datetime t_next_day = ''2024-03-12 00:00:00''"
  by (simp_all add: sqlite_datetime_def strftime_ymd_def hms_def t_query_def zpad_2 zpad_4
      digit_def t_before_def t_after_def t_late_def t_next_day_def)

lemma bytes_less_prefix: "bytes_less (p @ a) (p @ b) = bytes_less a b"
  by (induction p) auto

lemma same_day_not_expired:
  assumes "strftime_ymd now_utc = strftime_ymd expiry"
  shows "text_less (sqlite_datetime now_utc) (isoformat expiry)"
proof -
  have "text_less (sqlite_datetime now_utc) (isoformat expiry) =
      bytes_less (map of_char (strftime_ymd expiry) @ map of_char ('' '' @ hms now_utc))
        (map of_char (strftime_ymd expiry) @ map of_char (''T'' @ hms expiry
           @ (if microsecond expiry = 0 then [] else ''.'' @ zpad 6 (microsecond expiry))))"
    by (simp add: text_less_def sqlite_datetime_def isoformat_def assms)
  also have "\<dots>"
    unfolding bytes_less_prefix by simp
  finally show ?thesis .
qed

text \<open>
  Claim C6, at the failing input. The record expires at 09:00:00.25 on 2024-03-11. It is
  returned one minute before that, as the claim says, but also one minute after and
  until the end of that day; it is absent only from the next day on. The stored expiry
  has the letter T after the date and the query time a space, and the comparison of the
  two texts is decided there when the dates are equal (lemma \<open>same_day_not_expired\<close>).
\<close>

theorem news_returned_after_ttl:
  "news_cache news_db =
     [\<lparr> nc_symbol = ''2330'', nc_content = ''news'', nc_source = ''perplexity'',
        nc_created_at = ''2024-03-10 09:00:00'',
        nc_expires_at = ''2024-03-11T09:00:00.250000'' \<rparr>]
   \<and> get_news_cache news_db t_before ''2330'' = Some news_hit
   \<and> get_news_cache news_db t_after ''2330'' = Some news_hit
   \<and> get_news_cache news_db t_late ''2330'' = Some news_hit
   \<and> get_news_cache news_db t_next_day ''2330'' = None"
  by (simp add: get_news_cache_def news_db_rows query_texts text_less_def news_hit_def)


end
